theory Spec2Isabelle
  imports Main "HOL-Library.Word"
begin

section \<open>Data model of cmd/sql/flow.go\<close>

text \<open>
  The flow command of astro-cli computes a flag map and a list of host directories to mount,
  and runs a command of the containerised tool with them. Everything the Go code obtains from
  outside the file (the working directory, the file system, the container runtime, the decoder
  of an output stream) is a field of the record \<open>env\<close>; everything it does to the outside
  is logged in the record \<open>world\<close>, which every function takes and returns.
\<close>

type_synonym int64 = "64 word"

type_synonym flagMap = "string \<rightharpoonup> string"

text \<open>An \<open>io.ReadCloser\<close>: the model keeps the bytes the stream holds.\<close>

type_synonym readCloser = string

text \<open>
  Go's \<open>error\<close> values. \<open>External\<close> is an error made by a collaborator (the operating
  system, the container runtime, the stream decoder). The next three are the
  \<open>fmt.Errorf\<close> wrappers of flow.go, with their \<open>%w\<close> argument:
  \<^item> \<open>ErrGettingCurrentDirectory e\<close> is \<open>"error getting current directory %w"\<close>;
  \<^item> \<open>ErrCreatingProjectDirectory d e\<close> is \<open>"error creating project directory %s: %w"\<close>;
  \<^item> \<open>ErrRunning c e\<close> is \<open>"error running %v: %w"\<close> with the command tokens \<open>c\<close>.
\<close>

text \<open>
  Modelled from the spec: the constructors \<open>DockerNonZeroExitCodeError\<close> and
  \<open>ArgNotSetError\<close> stand for \<open>sql.DockerNonZeroExitCodeError\<close> and \<open>sql.ArgNotSetError\<close>,
  which package sql declares and which are not among the sources. The spec gives them as
  \<open>NonZeroExitError(code)\<close> and \<open>MissingArgumentError(name)\<close>: an error that keeps the exit
  code and an error that keeps the name of the argument (flow\_test.go expects the messages
  \<open>"docker command has returned a non-zero exit code:1"\<close> and \<open>"argument not set:key"\<close>).
\<close>

datatype error =
    External string
  | ErrGettingCurrentDirectory error
  | ErrCreatingProjectDirectory string error
  | ErrRunning "string list" error
  | DockerNonZeroExitCodeError int64
  | ArgNotSetError string

text \<open>
  The arguments of one call of \<open>sql.ExecuteCmdInDocker(cmd, args, flags, mountDirs,
  returnOutput)\<close>, and its three results \<open>(exitCode, output, err)\<close>. A nil slice is the empty
  list and a nil map the empty map.
\<close>

record dockerCall =
  call_cmd :: "string list"
  call_args :: "string list"
  call_flags :: flagMap
  call_mountDirs :: "string list"
  call_returnOutput :: bool

type_synonym dockerResult = "int64 \<times> readCloser \<times> error option"

type_synonym dockerEvent = "dockerCall \<times> dockerResult"

text \<open>
  The collaborators. \<open>Getwd\<close> is \<open>os.Getwd\<close>, \<open>MkdirAll p\<close> is
  \<open>os.MkdirAll(p, os.ModePerm)\<close>, \<open>Join\<close> is \<open>filepath.Join\<close> of two elements,
  \<open>ExecuteCmdInDocker\<close> is the container execution (its answer may depend on the calls made
  before, which it receives as its first argument) and \<open>ConvertReadCloserToString\<close> is the
  decoder of the captured output. None of them writes to the slices and maps it is given.
\<close>

record env =
  Getwd :: "error + string"
  MkdirAll :: "string \<Rightarrow> error option"
  Join :: "string \<Rightarrow> string \<Rightarrow> string"
  ExecuteCmdInDocker :: "dockerEvent list \<Rightarrow> dockerCall \<Rightarrow> dockerResult"
  ConvertReadCloserToString :: "readCloser \<Rightarrow> error + string"

text \<open>The effects: every container execution with its answer, and every directory creation.\<close>

record world =
  dockerLog :: "dockerEvent list"
  mkdirLog :: "string list"

text \<open>The package-level variables bound by the flag parser (flow.go lines 13 to 24).\<close>

record globals =
  environment :: string
  connection :: string
  airflowHome :: string
  airflowDagsFolder :: string
  dataDir :: string
  projectDir :: string
  generateTasks :: bool
  noGenerateTasks :: bool
  verbose :: bool
  debug :: bool

definition configCommandString :: "string list" where
  "configCommandString = [''config'']"

definition globalConfigKeys :: "string list" where
  "globalConfigKeys = [''airflow_home'', ''airflow_dags_folder'', ''data_dir'']"

section \<open>Library functions\<close>

text \<open>
  \<open>filepath.IsAbs\<close> on a Unix build: the path starts with a slash.
\<close>

definition IsAbs :: "string \<Rightarrow> bool" where
  "IsAbs path = (case path of [] \<Rightarrow> False | c # _ \<Rightarrow> c = CHR ''/'')"

text \<open>
  \<open>strings.TrimSpace\<close> removes from both ends of a string every rune that
  \<open>unicode.IsSpace\<close> accepts. A Go string is a sequence of bytes read as UTF-8, so the
  runes removed are the following byte sequences: the six ASCII ones (tab, line feed, vertical
  tab, form feed, carriage return, space), U+0085 and U+00A0 (two bytes each), and U+1680,
  U+2000 to U+200A, U+2028, U+2029, U+202F, U+205F and U+3000 (three bytes each). A byte
  that starts no valid encoding decodes to \<open>utf8.RuneError\<close>, which is not a space, and
  stops the trimming.
\<close>

definition spaceRunes :: "string list" where
  "spaceRunes =
     [[CHR 0x09], [CHR 0x0A], [CHR 0x0B], [CHR 0x0C], [CHR 0x0D], [CHR 0x20],
      [CHR 0xC2, CHR 0x85], [CHR 0xC2, CHR 0xA0],
      [CHR 0xE1, CHR 0x9A, CHR 0x80],
      [CHR 0xE2, CHR 0x80, CHR 0x80], [CHR 0xE2, CHR 0x80, CHR 0x81],
      [CHR 0xE2, CHR 0x80, CHR 0x82], [CHR 0xE2, CHR 0x80, CHR 0x83],
      [CHR 0xE2, CHR 0x80, CHR 0x84], [CHR 0xE2, CHR 0x80, CHR 0x85],
      [CHR 0xE2, CHR 0x80, CHR 0x86], [CHR 0xE2, CHR 0x80, CHR 0x87],
      [CHR 0xE2, CHR 0x80, CHR 0x88], [CHR 0xE2, CHR 0x80, CHR 0x89],
      [CHR 0xE2, CHR 0x80, CHR 0x8A],
      [CHR 0xE2, CHR 0x80, CHR 0xA8], [CHR 0xE2, CHR 0x80, CHR 0xA9],
      [CHR 0xE2, CHR 0x80, CHR 0xAF],
      [CHR 0xE2, CHR 0x81, CHR 0x9F],
      [CHR 0xE3, CHR 0x80, CHR 0x80]]"

text \<open>
  \<open>trimLeading rs s\<close> removes from the front of \<open>s\<close> the byte sequences of \<open>rs\<close>, as long
  as one of them is there; the empty sequence is never taken.
\<close>

function trimLeading :: "string list \<Rightarrow> string \<Rightarrow> string" where
  "trimLeading rs s =
     (case filter (\<lambda>r. r \<noteq> [] \<and> take (length r) s = r) rs of
        [] \<Rightarrow> s
      | r # _ \<Rightarrow> trimLeading rs (drop (length r) s))"
  by pat_completeness auto
termination
proof (relation "measure (\<lambda>(rs, s). length s)")
  show "wf (measure (\<lambda>(rs, s). length s))"
    by simp
next
  fix rs :: "string list" and s r :: string and x :: "string list"
  assume "filter (\<lambda>r. r \<noteq> [] \<and> take (length r) s = r) rs = r # x"
  then have "r \<in> set (filter (\<lambda>r. r \<noteq> [] \<and> take (length r) s = r) rs)"
    by simp
  then have r: "r \<noteq> []" "take (length r) s = r"
    by simp_all
  from r(2) have "length (take (length r) s) = length r"
    by simp
  then have "length r \<le> length s"
    by simp
  with r(1) show "((rs, drop (length r) s), (rs, s)) \<in> measure (\<lambda>(rs, s). length s)"
    by (cases r) simp_all
qed

declare trimLeading.simps [simp del]

text \<open>
  The spaces at the end are the reversed sequences at the front of the reversed string: the
  last rune of a string is a space exactly when the string ends with its encoding.
\<close>

definition TrimSpace :: "string \<Rightarrow> string" where
  "TrimSpace s = rev (trimLeading (map rev spaceRunes) (rev (trimLeading spaceRunes s)))"

section \<open>Path resolution and the base mount\<close>

definition getAbsolutePath :: "env \<Rightarrow> string \<Rightarrow> error + string" where
  "getAbsolutePath en path =
     (if \<not> IsAbs path \<or> path = [] \<or> path = ''.'' then
        (case Getwd en of
           Inl e \<Rightarrow> Inl (ErrGettingCurrentDirectory e)
         | Inr currentDir \<Rightarrow> Inr (Join en currentDir path))
      else Inr path)"

definition createProjectDir :: "env \<Rightarrow> world \<Rightarrow> string \<Rightarrow> world \<times> (error + string)" where
  "createProjectDir en w pd =
     (case getAbsolutePath en pd of
        Inl e \<Rightarrow> (w, Inl e)
      | Inr p \<Rightarrow>
          (let w' = w\<lparr>mkdirLog := mkdirLog w @ [p]\<rparr> in
           case MkdirAll en p of
             Some e \<Rightarrow> (w', Inl (ErrCreatingProjectDirectory p e))
           | None \<Rightarrow> (w', Inr p)))"

definition getBaseMountDirs :: "env \<Rightarrow> world \<Rightarrow> string \<Rightarrow> world \<times> (error + string list)" where
  "getBaseMountDirs en w pd =
     (case createProjectDir en w pd of
        (w', Inl e) \<Rightarrow> (w', Inl e)
      | (w', Inr mountDir) \<Rightarrow> (w', Inr [mountDir]))"

section \<open>The nested config query\<close>

text \<open>
  \<open>appendConfigKeyMountDir\<close> returns the pair \<open>(mountDirs, err)\<close> of the Go function: on
  every failure the list it was given, with the error.
\<close>

definition appendConfigKeyMountDir ::
  "env \<Rightarrow> world \<Rightarrow> string \<Rightarrow> flagMap \<Rightarrow> string list \<Rightarrow> world \<times> string list \<times> error option" where
  "appendConfigKeyMountDir en w configKey configFlags mountDirs =
     (let call = \<lparr>call_cmd = configCommandString, call_args = [configKey],
                  call_flags = configFlags, call_mountDirs = mountDirs,
                  call_returnOutput = True\<rparr>;
          res = ExecuteCmdInDocker en (dockerLog w) call;
          w' = w\<lparr>dockerLog := dockerLog w @ [(call, res)]\<rparr>
      in case res of
           (exitCode, output, Some e) \<Rightarrow> (w', mountDirs, Some (ErrRunning configCommandString e))
         | (exitCode, output, None) \<Rightarrow>
             if exitCode \<noteq> 0 then (w', mountDirs, Some (DockerNonZeroExitCodeError exitCode))
             else (case ConvertReadCloserToString en output of
                     Inl e \<Rightarrow> (w', mountDirs, Some e)
                   | Inr configKeyDir \<Rightarrow> (w', mountDirs @ [TrimSpace configKeyDir], None)))"

section \<open>The composer\<close>

text \<open>
  The loop over the global keys (flow.go lines 103 to 108). Each round assigns
  \<open>mountDirs, err = appendConfigKeyMountDir(...)\<close> and leaves the loop when \<open>err\<close> is
  set; the function returns the two variables as the loop leaves them.
\<close>

fun globalKeysLoop ::
  "env \<Rightarrow> world \<Rightarrow> string list \<Rightarrow> flagMap \<Rightarrow> string list \<Rightarrow> world \<times> string list \<times> error option" where
  "globalKeysLoop en w [] configFlags mountDirs = (w, mountDirs, None)"
| "globalKeysLoop en w (globalConfigKey # ks) configFlags mountDirs =
     (case appendConfigKeyMountDir en w globalConfigKey configFlags mountDirs of
        (w', mountDirs', Some e) \<Rightarrow> (w', mountDirs', Some e)
      | (w', mountDirs', None) \<Rightarrow> globalKeysLoop en w' ks configFlags mountDirs')"

text \<open>
  One of the three blocks for a local directory (lines 111 to 136): when the directory is
  requested and its variable is not empty, resolve it, set its flag and append it.
\<close>

definition setLocalDir ::
  "env \<Rightarrow> bool \<Rightarrow> string \<Rightarrow> string \<Rightarrow> flagMap \<times> string list \<Rightarrow> error + (flagMap \<times> string list)" where
  "setLocalDir en wanted dir flagName fm =
     (if wanted \<and> dir \<noteq> [] then
        (case getAbsolutePath en dir of
           Inl e \<Rightarrow> Inl e
         | Inr dirAbs \<Rightarrow> Inr ((fst fm)(flagName \<mapsto> dirAbs), snd fm @ [dirAbs]))
      else Inr fm)"

text \<open>
  \<open>buildFlagsAndMountDirs\<close> returns the triple \<open>(flags, mountDirs, err)\<close> of the Go function;
  every failing path returns \<open>nil, nil, err\<close>.
\<close>

definition buildFlagsAndMountDirs ::
  "env \<Rightarrow> globals \<Rightarrow> world \<Rightarrow> string \<Rightarrow> bool \<Rightarrow> bool \<Rightarrow> bool \<Rightarrow> bool \<Rightarrow> bool
     \<Rightarrow> world \<times> flagMap \<times> string list \<times> error option" where
  "buildFlagsAndMountDirs en g w pd setProjectDir setAirflowHome setAirflowDagsFolder setDataDir
       mountGlobalDirs =
     (case getBaseMountDirs en w pd of
        (w1, Inl e) \<Rightarrow> (w1, Map.empty, [], Some e)
      | (w1, Inr mountDirs0) \<Rightarrow>
          (case (if setProjectDir then
                   (case getAbsolutePath en pd of
                      Inl e \<Rightarrow> Inl e
                    | Inr pdAbs \<Rightarrow> Inr (pdAbs, [''project-dir'' \<mapsto> pdAbs]))
                 else Inr (pd, Map.empty)) of
             Inl e \<Rightarrow> (w1, Map.empty, [], Some e)
           | Inr (pd', flags1) \<Rightarrow>
               (case (if mountGlobalDirs then
                        globalKeysLoop en w1 globalConfigKeys [''project-dir'' \<mapsto> pd'] mountDirs0
                      else (w1, mountDirs0, None)) of
                  (w2, mountDirs1, Some e) \<Rightarrow> (w2, Map.empty, [], Some e)
                | (w2, mountDirs1, None) \<Rightarrow>
                    (case setLocalDir en setAirflowHome (airflowHome g) ''airflow-home''
                            (flags1, mountDirs1) of
                       Inl e \<Rightarrow> (w2, Map.empty, [], Some e)
                     | Inr fm2 \<Rightarrow>
                         (case setLocalDir en setAirflowDagsFolder (airflowDagsFolder g)
                                 ''airflow-dags-folder'' fm2 of
                            Inl e \<Rightarrow> (w2, Map.empty, [], Some e)
                          | Inr fm3 \<Rightarrow>
                              (case setLocalDir en setDataDir (dataDir g) ''data-dir'' fm3 of
                                 Inl e \<Rightarrow> (w2, Map.empty, [], Some e)
                               | Inr fm4 \<Rightarrow> (w2, fst fm4, snd fm4, None)))))))"

section \<open>Dispatch and the command handlers\<close>

text \<open>
  A Go function either returns or panics. \<open>PanicError e\<close> is \<open>panic(e)\<close> and
  \<open>IndexOutOfRange\<close> is the run-time panic of reading \<open>mountDirs[0]\<close> in an empty slice.
\<close>

datatype panic = PanicError error | IndexOutOfRange

datatype 'a outcome = Returned 'a | Panicked panic

text \<open>\<open>executeCmd\<close>; \<open>name\<close> is \<open>cmd.Name()\<close>.\<close>

definition executeCmd ::
  "env \<Rightarrow> globals \<Rightarrow> world \<Rightarrow> string \<Rightarrow> string list \<Rightarrow> flagMap \<Rightarrow> string list
     \<Rightarrow> world \<times> error option" where
  "executeCmd en g w name args flags mountDirs =
     (let cmdString = (if debug g then [''--debug'', name] else [name]);
          call = \<lparr>call_cmd = cmdString, call_args = args, call_flags = flags,
                  call_mountDirs = mountDirs, call_returnOutput = False\<rparr>;
          res = ExecuteCmdInDocker en (dockerLog w) call;
          w' = w\<lparr>dockerLog := dockerLog w @ [(call, res)]\<rparr>
      in case res of
           (exitCode, output, Some e) \<Rightarrow> (w', Some (ErrRunning cmdString e))
         | (exitCode, output, None) \<Rightarrow>
             if exitCode \<noteq> 0 then (w', Some (DockerNonZeroExitCodeError exitCode))
             else (w', None))"

text \<open>
  The handlers take the package variables and return them, since \<open>executeInit\<close> and
  \<open>executeValidate\<close> assign \<open>projectDir\<close>.
\<close>

type_synonym handlerResult = "globals \<times> world \<times> error option outcome"

definition setEnv :: "globals \<Rightarrow> flagMap \<Rightarrow> flagMap" where
  "setEnv g flags = (if environment g \<noteq> [] then flags(''env'' \<mapsto> environment g) else flags)"

definition executeBase :: "env \<Rightarrow> globals \<Rightarrow> world \<Rightarrow> string \<Rightarrow> string list \<Rightarrow> handlerResult" where
  "executeBase en g w name args =
     (case buildFlagsAndMountDirs en g w (projectDir g) False False False False False of
        (w1, flags, mountDirs, Some e) \<Rightarrow> (g, w1, Returned (Some e))
      | (w1, flags, mountDirs, None) \<Rightarrow>
          (case executeCmd en g w1 name args flags mountDirs of
             (w2, r) \<Rightarrow> (g, w2, Returned r)))"

definition executeInit :: "env \<Rightarrow> globals \<Rightarrow> world \<Rightarrow> string \<Rightarrow> string list \<Rightarrow> handlerResult" where
  "executeInit en g0 w name args0 =
     (let g = (if length args0 > 0 then g0\<lparr>projectDir := args0 ! 0\<rparr> else g0) in
      case buildFlagsAndMountDirs en g w (projectDir g) False True True True False of
        (w1, flags, mountDirs, Some e) \<Rightarrow> (g, w1, Returned (Some e))
      | (w1, flags, mountDirs, None) \<Rightarrow>
          (case mountDirs of
             [] \<Rightarrow> (g, w1, Panicked IndexOutOfRange)
           | projectDirAbsolute # _ \<Rightarrow>
               (let args = [projectDirAbsolute] in
                case executeCmd en g w1 name args flags mountDirs of
                  (w2, r) \<Rightarrow> (g, w2, Returned r))))"

definition executeConfig :: "env \<Rightarrow> globals \<Rightarrow> world \<Rightarrow> string \<Rightarrow> string list \<Rightarrow> handlerResult" where
  "executeConfig en g w name args =
     (if length args < 1 then (g, w, Returned (Some (ArgNotSetError ''key'')))
      else
        (case buildFlagsAndMountDirs en g w (projectDir g) True False False False False of
           (w1, flags, mountDirs, Some e) \<Rightarrow> (g, w1, Returned (Some e))
         | (w1, flags, mountDirs, None) \<Rightarrow>
             (case executeCmd en g w1 name args (setEnv g flags) mountDirs of
                (w2, r) \<Rightarrow> (g, w2, Returned r))))"

definition executeValidate :: "env \<Rightarrow> globals \<Rightarrow> world \<Rightarrow> string \<Rightarrow> string list \<Rightarrow> handlerResult" where
  "executeValidate en g0 w name args0 =
     (let g = (if length args0 > 0 then g0\<lparr>projectDir := args0 ! 0\<rparr> else g0) in
      case buildFlagsAndMountDirs en g w (projectDir g) False False False False False of
        (w1, flags, mountDirs, Some e) \<Rightarrow> (g, w1, Returned (Some e))
      | (w1, flags, mountDirs, None) \<Rightarrow>
          (case mountDirs of
             [] \<Rightarrow> (g, w1, Panicked IndexOutOfRange)
           | projectDirAbsolute # _ \<Rightarrow>
               (let args1 = [projectDirAbsolute];
                    flags1 = setEnv g flags;
                    flags2 = (if connection g \<noteq> [] then flags1(''connection'' \<mapsto> connection g)
                              else flags1);
                    args2 = (if verbose g then args1 @ [''--verbose''] else args1)
                in case executeCmd en g w1 name args2 flags2 mountDirs of
                     (w2, r) \<Rightarrow> (g, w2, Returned r))))"

definition executeGenerate :: "env \<Rightarrow> globals \<Rightarrow> world \<Rightarrow> string \<Rightarrow> string list \<Rightarrow> handlerResult" where
  "executeGenerate en g w name args =
     (if length args < 1 then (g, w, Returned (Some (ArgNotSetError ''workflow_name'')))
      else
        (case buildFlagsAndMountDirs en g w (projectDir g) True False False False True of
           (w1, flags, mountDirs, Some e) \<Rightarrow> (g, w1, Returned (Some e))
         | (w1, flags, mountDirs, None) \<Rightarrow>
             (let args1 = (if generateTasks g then args @ [''--generate-tasks''] else args);
                  args2 = (if noGenerateTasks g then args1 @ [''--no-generate-tasks''] else args1);
                  flags1 = setEnv g flags;
                  args3 = (if verbose g then args2 @ [''--verbose''] else args2)
              in case executeCmd en g w1 name args3 flags1 mountDirs of
                   (w2, r) \<Rightarrow> (g, w2, Returned r))))"

definition executeRun :: "env \<Rightarrow> globals \<Rightarrow> world \<Rightarrow> string \<Rightarrow> string list \<Rightarrow> handlerResult" where
  "executeRun en g w name args =
     (if length args < 1 then (g, w, Returned (Some (ArgNotSetError ''workflow_name'')))
      else
        (case buildFlagsAndMountDirs en g w (projectDir g) True False False False True of
           (w1, flags, mountDirs, Some e) \<Rightarrow> (g, w1, Returned (Some e))
         | (w1, flags, mountDirs, None) \<Rightarrow>
             (let flags1 = setEnv g flags;
                  args1 = (if verbose g then args @ [''--verbose''] else args);
                  args2 = (if generateTasks g then args1 @ [''--generate-tasks''] else args1);
                  args3 = (if noGenerateTasks g then args2 @ [''--no-generate-tasks''] else args2)
              in case executeCmd en g w1 name args3 flags1 mountDirs of
                   (w2, r) \<Rightarrow> (g, w2, Returned r))))"

text \<open>
  \<open>executeHelp\<close> has no result: it returns, or it panics with the error.
\<close>

definition executeHelp :: "env \<Rightarrow> world \<Rightarrow> string list \<Rightarrow> world \<times> unit outcome" where
  "executeHelp en w cmdString =
     (let call = \<lparr>call_cmd = cmdString, call_args = [], call_flags = Map.empty,
                  call_mountDirs = [], call_returnOutput = False\<rparr>;
          res = ExecuteCmdInDocker en (dockerLog w) call;
          w' = w\<lparr>dockerLog := dockerLog w @ [(call, res)]\<rparr>
      in case res of
           (exitCode, output, Some e) \<Rightarrow> (w', Panicked (PanicError (ErrRunning cmdString e)))
         | (exitCode, output, None) \<Rightarrow>
             if exitCode \<noteq> 0 then (w', Panicked (PanicError (DockerNonZeroExitCodeError exitCode)))
             else (w', Returned ()))"

section \<open>Reading the log\<close>

text \<open>
  A logged sub-invocation succeeded when \<open>appendConfigKeyMountDir\<close> passes its three checks
  on the answer: no error of the execution, exit code zero, and an output that decodes.
\<close>

definition querySucceeded :: "env \<Rightarrow> dockerEvent \<Rightarrow> bool" where
  "querySucceeded en ev =
     (case snd ev of
        (exitCode, output, err) \<Rightarrow>
          err = None \<and> exitCode = 0 \<and>
          (case ConvertReadCloserToString en output of Inl e \<Rightarrow> False | Inr s \<Rightarrow> True))"

text \<open>The error \<open>appendConfigKeyMountDir\<close> makes of an answer, if any.\<close>

definition queryError :: "env \<Rightarrow> dockerResult \<Rightarrow> error option" where
  "queryError en res =
     (case res of
        (exitCode, output, Some e) \<Rightarrow> Some (ErrRunning configCommandString e)
      | (exitCode, output, None) \<Rightarrow>
          if exitCode \<noteq> 0 then Some (DockerNonZeroExitCodeError exitCode)
          else (case ConvertReadCloserToString en output of Inl e \<Rightarrow> Some e | Inr s \<Rightarrow> None))"

text \<open>The last container execution logged ran without error and with exit code zero.\<close>

definition lastRunSucceeded :: "world \<Rightarrow> bool" where
  "lastRunSucceeded w =
     (dockerLog w \<noteq> [] \<and>
      (case snd (last (dockerLog w)) of (exitCode, output, err) \<Rightarrow> exitCode = 0 \<and> err = None))"

text \<open>The six handlers bound to \<open>RunE\<close> (about and version share \<open>executeBase\<close>).\<close>

definition handlers ::
  "(env \<Rightarrow> globals \<Rightarrow> world \<Rightarrow> string \<Rightarrow> string list \<Rightarrow> handlerResult) list" where
  "handlers = [executeBase, executeInit, executeConfig, executeValidate, executeGenerate, executeRun]"

text \<open>
  The call sites of the handlers, as a table: the handler, the positional argument it
  requires (if any), whether it takes the project directory from its first argument, and the
  five booleans it passes to \<open>buildFlagsAndMountDirs\<close> (flow.go lines 158, 170, 186, 203,
  231 and 259).
\<close>

type_synonym tableRow =
  "(env \<Rightarrow> globals \<Rightarrow> world \<Rightarrow> string \<Rightarrow> string list \<Rightarrow> handlerResult)
     \<times> string option \<times> bool \<times> bool \<times> bool \<times> bool \<times> bool \<times> bool"

definition handlerTable :: "tableRow list" where
  "handlerTable =
     [(executeBase, None, False, False, False, False, False, False),
      (executeInit, None, True, False, True, True, True, False),
      (executeConfig, Some ''key'', False, True, False, False, False, False),
      (executeValidate, None, True, False, False, False, False, False),
      (executeGenerate, Some ''workflow_name'', False, True, False, False, False, True),
      (executeRun, Some ''workflow_name'', False, True, False, False, False, True)]"

text \<open>
  A handler follows its row on a run when: with a required argument missing it returns
  \<open>ArgNotSetError\<close> and does nothing; otherwise, when the composition of its row fails it
  returns the error of the composition, and when the composition succeeds it calls
  \<open>executeCmd\<close> once with the mounts composed (and some positional arguments and flags), and
  returns what \<open>executeCmd\<close> returns.
\<close>

definition followsRow ::
  "env \<Rightarrow> globals \<Rightarrow> world \<Rightarrow> string \<Rightarrow> string list \<Rightarrow> tableRow \<Rightarrow> bool" where
  "followsRow en g w name args row =
     (case row of
        (h, required, dirArg, sp, sh, sf, sd, mg) \<Rightarrow>
          (case required of
             Some a \<Rightarrow>
               args = [] \<longrightarrow> h en g w name args = (g, w, Returned (Some (ArgNotSetError a)))
           | None \<Rightarrow> True) \<and>
          (required = None \<or> args \<noteq> [] \<longrightarrow>
             (let g1 = (if dirArg \<and> args \<noteq> [] then g\<lparr>projectDir := hd args\<rparr> else g) in
              case buildFlagsAndMountDirs en g1 w (projectDir g1) sp sh sf sd mg of
                (w1, fl, md, Some e) \<Rightarrow> h en g w name args = (g1, w1, Returned (Some e))
              | (w1, fl, md, None) \<Rightarrow>
                  (\<exists>a f. h en g w name args =
                     (g1, fst (executeCmd en g1 w1 name a f md),
                      Returned (snd (executeCmd en g1 w1 name a f md)))))))"

section \<open>Test doubles\<close>

text \<open>
  Collaborators for concrete runs, after the doubles of flow\_test.go: a working directory,
  a file system where every creation succeeds, a join that puts a slash between its
  arguments and returns the first when the second is empty or a dot (it agrees with
  \<open>filepath.Join\<close> on the clean paths of the runs below, and does not clean its result), a decoder that returns the bytes of the stream, and a container execution given
  as argument.
\<close>

definition testEnv :: "(dockerEvent list \<Rightarrow> dockerCall \<Rightarrow> dockerResult) \<Rightarrow> env" where
  "testEnv d = \<lparr>Getwd = Inr ''/home/user'', MkdirAll = (\<lambda>p. None),
                Join = (\<lambda>a b. if b = [] \<or> b = ''.'' then a else a @ ''/'' @ b),
                ExecuteCmdInDocker = d,
                ConvertReadCloserToString = (\<lambda>rc. Inr rc)\<rparr>"

text \<open>A container execution that answers the config query of each global key with a directory.\<close>

definition dockerKeyDirs :: "dockerEvent list \<Rightarrow> dockerCall \<Rightarrow> dockerResult" where
  "dockerKeyDirs h c =
     (if call_args c = [''airflow_home''] then (0, ''/a'', None)
      else if call_args c = [''airflow_dags_folder''] then (0, ''/b'', None)
      else if call_args c = [''data_dir''] then (0, ''/c'', None)
      else (0, [], None))"

text \<open>The same, but the query of one key gets the given answer.\<close>

definition dockerKeyAnswer ::
  "string \<Rightarrow> dockerResult \<Rightarrow> dockerEvent list \<Rightarrow> dockerCall \<Rightarrow> dockerResult" where
  "dockerKeyAnswer k r h c = (if call_args c = [k] then r else dockerKeyDirs h c)"

definition mockExecuteCmdInDockerReturnErr :: "dockerEvent list \<Rightarrow> dockerCall \<Rightarrow> dockerResult" where
  "mockExecuteCmdInDockerReturnErr h c = (0, [], Some (External ''mock error''))"

definition mockExecuteCmdInDockerReturnNonZeroExitCode ::
  "dockerEvent list \<Rightarrow> dockerCall \<Rightarrow> dockerResult" where
  "mockExecuteCmdInDockerReturnNonZeroExitCode h c = (1, [], None)"

definition emptyWorld :: world where
  "emptyWorld = \<lparr>dockerLog = [], mkdirLog = []\<rparr>"

text \<open>The package variables at their defaults, with the given project directory.\<close>

definition defaultGlobals :: "string \<Rightarrow> globals" where
  "defaultGlobals pd = \<lparr>environment = ''default'', connection = [], airflowHome = [],
                         airflowDagsFolder = [], dataDir = [], projectDir = pd,
                         generateTasks = False, noGenerateTasks = False, verbose = False,
                         debug = False\<rparr>"

section \<open>Evaluation\<close>

text \<open>The directories the test doubles answer have no space to trim.\<close>

lemma TrimSpace_test_dirs:
  "TrimSpace ''/a'' = ''/a''" "TrimSpace ''/b'' = ''/b''" "TrimSpace ''/c'' = ''/c''"
  by (simp_all add: TrimSpace_def spaceRunes_def trimLeading.simps)

text \<open>
  A space, U+00A0, \<open>/a\<close>, a line feed and U+2003: the spaces go, also those beyond ASCII.
  A lone continuation byte is no space and stays.
\<close>

lemma TrimSpace_unicode:
  "TrimSpace [CHR 0x20, CHR 0xC2, CHR 0xA0, CHR 0x2F, CHR 0x61, CHR 0x0A, CHR 0xE2, CHR 0x80,
              CHR 0x83] = ''/a''"
  "TrimSpace [CHR 0x20, CHR 0x85, CHR 0x61, CHR 0x20] = [CHR 0x85, CHR 0x61]"
  by (simp_all add: TrimSpace_def spaceRunes_def trimLeading.simps)

lemmas run_defs =
  buildFlagsAndMountDirs_def getBaseMountDirs_def createProjectDir_def getAbsolutePath_def
  IsAbs_def appendConfigKeyMountDir_def setLocalDir_def TrimSpace_test_dirs
  globalConfigKeys_def configCommandString_def executeCmd_def setEnv_def
  testEnv_def dockerKeyDirs_def dockerKeyAnswer_def mockExecuteCmdInDockerReturnErr_def
  mockExecuteCmdInDockerReturnNonZeroExitCode_def emptyWorld_def defaultGlobals_def Let_def

section \<open>Properties of path resolution\<close>

lemma getAbsolutePath_abs: "IsAbs p \<Longrightarrow> getAbsolutePath en p = Inr p"
  by (auto simp: getAbsolutePath_def IsAbs_def)

lemma getAbsolutePath_rel:
  "\<not> IsAbs p \<Longrightarrow>
   getAbsolutePath en p =
     (case Getwd en of Inl e \<Rightarrow> Inl (ErrGettingCurrentDirectory e)
                     | Inr currentDir \<Rightarrow> Inr (Join en currentDir p))"
  by (simp add: getAbsolutePath_def)

lemma not_IsAbs_trivial: "p = [] \<or> p = ''.'' \<Longrightarrow> \<not> IsAbs p"
  by (auto simp: IsAbs_def)

text \<open>
  Claim C3. A path that is absolute, not empty and not \<open>"."\<close> is returned unchanged. A path
  that is not absolute, or empty, or \<open>"."\<close>, is joined to the current working directory;
  on that branch the resolver fails exactly when the working directory cannot be determined,
  and the failure is the wrapped error of \<open>os.Getwd\<close>.
\<close>

theorem getAbsolutePath_resolves:
  "(p \<noteq> [] \<and> IsAbs p \<and> p \<noteq> ''.'' \<longrightarrow> getAbsolutePath en p = Inr p) \<and>
   (\<not> IsAbs p \<or> p = [] \<or> p = ''.'' \<longrightarrow>
      (\<forall>cwd. Getwd en = Inr cwd \<longrightarrow> getAbsolutePath en p = Inr (Join en cwd p)) \<and>
      (\<forall>e. Getwd en = Inl e \<longrightarrow> getAbsolutePath en p = Inl (ErrGettingCurrentDirectory e)) \<and>
      ((\<exists>e. getAbsolutePath en p = Inl e) \<longleftrightarrow> (\<exists>e. Getwd en = Inl e)))"
proof (intro conjI impI)
  assume "p \<noteq> [] \<and> IsAbs p \<and> p \<noteq> ''.''"
  then show "getAbsolutePath en p = Inr p"
    by (simp add: getAbsolutePath_abs)
next
  assume "\<not> IsAbs p \<or> p = [] \<or> p = ''.''"
  then have rel: "\<not> IsAbs p"
    using not_IsAbs_trivial by blast
  show "\<forall>cwd. Getwd en = Inr cwd \<longrightarrow> getAbsolutePath en p = Inr (Join en cwd p)"
    by (simp add: getAbsolutePath_rel [OF rel])
  show "\<forall>e. Getwd en = Inl e \<longrightarrow> getAbsolutePath en p = Inl (ErrGettingCurrentDirectory e)"
    by (simp add: getAbsolutePath_rel [OF rel])
  show "(\<exists>e. getAbsolutePath en p = Inl e) \<longleftrightarrow> (\<exists>e. Getwd en = Inl e)"
    by (cases "Getwd en") (simp_all add: getAbsolutePath_rel [OF rel])
qed

theorem getAbsolutePath_resolves_witness:
  "getAbsolutePath (testEnv dockerKeyDirs) ''/tmp/proj'' = Inr ''/tmp/proj'' \<and>
   getAbsolutePath (testEnv dockerKeyDirs) ''proj'' = Inr ''/home/user/proj'' \<and>
   getAbsolutePath ((testEnv dockerKeyDirs)\<lparr>Getwd := Inl (External ''getwd failed'')\<rparr>) ''.''
     = Inl (ErrGettingCurrentDirectory (External ''getwd failed''))"
  using getAbsolutePath_resolves [of "''/tmp/proj''" "testEnv dockerKeyDirs"]
    getAbsolutePath_resolves [of "''proj''" "testEnv dockerKeyDirs"]
    getAbsolutePath_resolves [of "''.''"
      "(testEnv dockerKeyDirs)\<lparr>Getwd := Inl (External ''getwd failed'')\<rparr>"]
  by (simp add: IsAbs_def testEnv_def)

section \<open>The first mount is the project directory\<close>

lemma appendConfigKeyMountDir_mounts:
  "appendConfigKeyMountDir en w k cf md = (w', md', err) \<Longrightarrow> \<exists>xs. md' = md @ xs"
  by (auto simp: appendConfigKeyMountDir_def Let_def
      split: prod.splits option.splits if_splits sum.splits)

lemma globalKeysLoop_mounts:
  "globalKeysLoop en w ks cf md = (w', md', err) \<Longrightarrow> \<exists>xs. md' = md @ xs"
proof (induction ks arbitrary: w md)
  case Nil
  then show ?case by simp
next
  case (Cons k ks)
  obtain w1 md1 e1 where a: "appendConfigKeyMountDir en w k cf md = (w1, md1, e1)"
    by (metis prod_cases3)
  from appendConfigKeyMountDir_mounts [OF a] obtain xs where xs: "md1 = md @ xs" by blast
  show ?case
  proof (cases e1)
    case None
    with Cons.prems a have "globalKeysLoop en w1 ks cf md1 = (w', md', err)" by simp
    from Cons.IH [OF this] obtain ys where "md' = md1 @ ys" by blast
    with xs show ?thesis by simp
  next
    case (Some e)
    with Cons.prems a have "md' = md1" by simp
    with xs show ?thesis by simp
  qed
qed

lemma setLocalDir_mounts:
  "setLocalDir en b d n fm = Inr fm' \<Longrightarrow> \<exists>xs. snd fm' = snd fm @ xs"
  by (auto simp: setLocalDir_def split: if_splits sum.splits)

lemma getBaseMountDirs_Inr:
  "getBaseMountDirs en w pd = (w', Inr md) \<Longrightarrow>
     \<exists>p. getAbsolutePath en pd = Inr p \<and> md = [p] \<and> MkdirAll en p = None
        \<and> w' = w\<lparr>mkdirLog := mkdirLog w @ [p]\<rparr>"
  by (auto simp: getBaseMountDirs_def createProjectDir_def Let_def
      split: sum.splits option.splits prod.splits)

text \<open>A successful composition went through every step; the steps, one by one.\<close>

lemma buildFlagsAndMountDirs_okE:
  assumes "buildFlagsAndMountDirs en g w pd sp sh sf sd mg = (w', fl, md, None)"
  obtains w1 p md1 fm2 fm3 where
    "getBaseMountDirs en w pd = (w1, Inr [p])"
    "getAbsolutePath en pd = Inr p"
    "(if mg then globalKeysLoop en w1 globalConfigKeys
                   [''project-dir'' \<mapsto> (if sp then p else pd)] [p]
      else (w1, [p], None)) = (w', md1, None)"
    "setLocalDir en sh (airflowHome g) ''airflow-home''
        (if sp then [''project-dir'' \<mapsto> p] else Map.empty, md1) = Inr fm2"
    "setLocalDir en sf (airflowDagsFolder g) ''airflow-dags-folder'' fm2 = Inr fm3"
    "setLocalDir en sd (dataDir g) ''data-dir'' fm3 = Inr (fl, md)"
proof -
  from assms obtain w1 md0 where base: "getBaseMountDirs en w pd = (w1, Inr md0)"
    by (auto simp: buildFlagsAndMountDirs_def split: prod.splits sum.splits)
  from getBaseMountDirs_Inr [OF base] obtain p where
    p: "getAbsolutePath en pd = Inr p" "md0 = [p]" by blast
  show ?thesis
    using assms base p that
    by (auto simp: buildFlagsAndMountDirs_def
        split: prod.splits sum.splits option.splits if_splits)
qed

lemma buildFlagsAndMountDirs_ok_mounts:
  assumes "buildFlagsAndMountDirs en g w pd sp sh sf sd mg = (w', fl, md, None)"
  shows "\<exists>p rest. getAbsolutePath en pd = Inr p \<and> md = p # rest"
proof -
  from assms obtain w1 p md1 fm2 fm3 where
    p: "getAbsolutePath en pd = Inr p"
    and loop: "(if mg then globalKeysLoop en w1 globalConfigKeys
                  [''project-dir'' \<mapsto> (if sp then p else pd)] [p]
                else (w1, [p], None)) = (w', md1, None)"
    and l1: "setLocalDir en sh (airflowHome g) ''airflow-home''
               (if sp then [''project-dir'' \<mapsto> p] else Map.empty, md1) = Inr fm2"
    and l2: "setLocalDir en sf (airflowDagsFolder g) ''airflow-dags-folder'' fm2 = Inr fm3"
    and l3: "setLocalDir en sd (dataDir g) ''data-dir'' fm3 = Inr (fl, md)"
    by (rule buildFlagsAndMountDirs_okE)
  from loop obtain xs where "md1 = [p] @ xs"
    using globalKeysLoop_mounts [of en w1 globalConfigKeys _ "[p]" w' md1 None]
    by (auto split: if_splits)
  moreover from setLocalDir_mounts [OF l1] obtain ys where "snd fm2 = md1 @ ys" by auto
  moreover from setLocalDir_mounts [OF l2] obtain zs where "snd fm3 = snd fm2 @ zs" by auto
  moreover from setLocalDir_mounts [OF l3] obtain us where "md = snd fm3 @ us" by auto
  ultimately have "md = p # xs @ ys @ zs @ us" by simp
  with p show ?thesis by simp
qed

text \<open>
  Claim C1. Whenever \<open>buildFlagsAndMountDirs\<close> succeeds, whatever its five booleans, the
  mount list it returns is not empty and its first element is the resolved project
  directory: the loop over the global keys and the three local steps only append.
\<close>

theorem buildFlagsAndMountDirs_first_is_project_dir:
  assumes "buildFlagsAndMountDirs en g w pd sp sh sf sd mg = (w', fl, md, None)"
  shows "md \<noteq> [] \<and> getAbsolutePath en pd = Inr (hd md)"
  using buildFlagsAndMountDirs_ok_mounts [OF assms] by auto

theorem buildFlagsAndMountDirs_first_is_project_dir_witness:
  "(case buildFlagsAndMountDirs (testEnv dockerKeyDirs)
           ((defaultGlobals ''.'')\<lparr>airflowHome := ''/h''\<rparr>) emptyWorld ''proj''
           True True True True True of
      (w', fl, md, err) \<Rightarrow>
        err = None \<and> md = [''/home/user/proj'', ''/a'', ''/b'', ''/c'', ''/h''] \<and>
        md \<noteq> [] \<and> getAbsolutePath (testEnv dockerKeyDirs) ''proj'' = Inr (hd md))"
proof -
  obtain w' fl md err where
    r: "buildFlagsAndMountDirs (testEnv dockerKeyDirs)
          ((defaultGlobals ''.'')\<lparr>airflowHome := ''/h''\<rparr>) emptyWorld ''proj''
          True True True True True = (w', fl, md, err)"
    by (rule prod_cases4)
  from r have e: "err = None" and m: "md = [''/home/user/proj'', ''/a'', ''/b'', ''/c'', ''/h'']"
    by (simp_all add: run_defs)
  from buildFlagsAndMountDirs_first_is_project_dir [OF r [unfolded e]] r e m
  show ?thesis by simp
qed

section \<open>End-to-end compositions\<close>

lemma appendConfigKeyMountDir_ok:
  assumes "ExecuteCmdInDocker en (dockerLog w)
             \<lparr>call_cmd = configCommandString, call_args = [k], call_flags = cf,
              call_mountDirs = md, call_returnOutput = True\<rparr> = (ec, out, err)"
    and "ec = 0" and "err = None" and "ConvertReadCloserToString en out = Inr d"
  shows "\<exists>w'. appendConfigKeyMountDir en w k cf md = (w', md @ [TrimSpace d], None)"
  using assms by (simp add: appendConfigKeyMountDir_def Let_def)

lemma getBaseMountDirs_ok:
  "getAbsolutePath en pd = Inr p \<Longrightarrow> MkdirAll en p = None \<Longrightarrow>
   getBaseMountDirs en w pd = (w\<lparr>mkdirLog := mkdirLog w @ [p]\<rparr>, Inr [p])"
  by (simp add: getBaseMountDirs_def createProjectDir_def Let_def)

text \<open>
  Claim C2. With project directory \<open>/tmp/proj\<close>, the project-dir flag and the global
  mounts requested and no local directory requested (the row of generate and run), when the
  directory can be created and the sub-invocations of the three global keys succeed with
  outputs that decode to \<open>/a\<close>, \<open>/b\<close> and \<open>/c\<close>, the composer returns the flags
  \<open>{project-dir: /tmp/proj}\<close> and the mounts \<open>[/tmp/proj, /a, /b, /c]\<close>, and no error.
\<close>

theorem buildFlagsAndMountDirs_generate_row:
  assumes mk: "MkdirAll en ''/tmp/proj'' = None"
    and q1: "\<And>h c. call_cmd c = configCommandString \<and> call_args c = [''airflow_home''] \<Longrightarrow>
               (case ExecuteCmdInDocker en h c of (ec, out, err) \<Rightarrow>
                  ec = 0 \<and> err = None \<and> ConvertReadCloserToString en out = Inr ''/a'')"
    and q2: "\<And>h c. call_cmd c = configCommandString \<and> call_args c = [''airflow_dags_folder''] \<Longrightarrow>
               (case ExecuteCmdInDocker en h c of (ec, out, err) \<Rightarrow>
                  ec = 0 \<and> err = None \<and> ConvertReadCloserToString en out = Inr ''/b'')"
    and q3: "\<And>h c. call_cmd c = configCommandString \<and> call_args c = [''data_dir''] \<Longrightarrow>
               (case ExecuteCmdInDocker en h c of (ec, out, err) \<Rightarrow>
                  ec = 0 \<and> err = None \<and> ConvertReadCloserToString en out = Inr ''/c'')"
  shows "snd (buildFlagsAndMountDirs en g w ''/tmp/proj'' True False False False True) =
           ([''project-dir'' \<mapsto> ''/tmp/proj''], [''/tmp/proj'', ''/a'', ''/b'', ''/c''], None)"
proof -
  let ?cf = "[''project-dir'' \<mapsto> ''/tmp/proj'']"
  have abs: "getAbsolutePath en ''/tmp/proj'' = Inr ''/tmp/proj''"
    by (simp add: getAbsolutePath_abs IsAbs_def)
  have base: "getBaseMountDirs en w ''/tmp/proj'' =
      (w\<lparr>mkdirLog := mkdirLog w @ [''/tmp/proj'']\<rparr>, Inr [''/tmp/proj''])"
    by (rule getBaseMountDirs_ok [OF abs mk])
  have step: "\<exists>w'. appendConfigKeyMountDir en v k ?cf md = (w', md @ [d], None)"
    if "\<And>h c. call_cmd c = configCommandString \<and> call_args c = [k] \<Longrightarrow>
               (case ExecuteCmdInDocker en h c of (ec, out, err) \<Rightarrow>
                  ec = 0 \<and> err = None \<and> ConvertReadCloserToString en out = Inr d)"
      and "TrimSpace d = d" for v k md d
  proof -
    let ?c = "\<lparr>call_cmd = configCommandString, call_args = [k], call_flags = ?cf,
              call_mountDirs = md, call_returnOutput = True\<rparr>"
    obtain ec out err where r: "ExecuteCmdInDocker en (dockerLog v) ?c = (ec, out, err)"
      by (rule prod_cases3)
    from that(1) [of ?c "dockerLog v"] r
    have "ec = 0" "err = None" "ConvertReadCloserToString en out = Inr d" by simp_all
    from appendConfigKeyMountDir_ok [OF r this] that(2) show ?thesis by simp
  qed
  note t = TrimSpace_test_dirs
  obtain w1 where s1: "appendConfigKeyMountDir en (w\<lparr>mkdirLog := mkdirLog w @ [''/tmp/proj'']\<rparr>)
       ''airflow_home'' ?cf [''/tmp/proj''] = (w1, [''/tmp/proj'', ''/a''], None)"
    using step [OF q1 t(1), where md = "[''/tmp/proj'']"] by auto
  obtain w2 where s2: "appendConfigKeyMountDir en w1
       ''airflow_dags_folder'' ?cf [''/tmp/proj'', ''/a''] = (w2, [''/tmp/proj'', ''/a'', ''/b''], None)"
    using step [OF q2 t(2), where md = "[''/tmp/proj'', ''/a'']"] by auto
  obtain w3 where s3: "appendConfigKeyMountDir en w2
       ''data_dir'' ?cf [''/tmp/proj'', ''/a'', ''/b''] = (w3, [''/tmp/proj'', ''/a'', ''/b'', ''/c''], None)"
    using step [OF q3 t(3), where md = "[''/tmp/proj'', ''/a'', ''/b'']"] by auto
  have loop: "globalKeysLoop en (w\<lparr>mkdirLog := mkdirLog w @ [''/tmp/proj'']\<rparr>) globalConfigKeys ?cf
      [''/tmp/proj''] = (w3, [''/tmp/proj'', ''/a'', ''/b'', ''/c''], None)"
    by (simp add: globalConfigKeys_def s1 s2 s3)
  show ?thesis
    by (simp add: buildFlagsAndMountDirs_def base abs loop setLocalDir_def)
qed

theorem buildFlagsAndMountDirs_generate_row_witness:
  "snd (buildFlagsAndMountDirs (testEnv dockerKeyDirs) (defaultGlobals ''/tmp/proj'') emptyWorld
          ''/tmp/proj'' True False False False True) =
     ([''project-dir'' \<mapsto> ''/tmp/proj''], [''/tmp/proj'', ''/a'', ''/b'', ''/c''], None)"
  by (rule buildFlagsAndMountDirs_generate_row)
     (simp_all add: testEnv_def dockerKeyDirs_def)

text \<open>
  Claim C8. For the row of init (the three local directories requested, nothing else), with
  \<open>airflowHome = /h\<close>, an empty \<open>airflowDagsFolder\<close> and \<open>dataDir = /d\<close>, when the project
  directory resolves to \<open>p\<close> and can be created, the composer returns exactly the flags
  \<open>{airflow-home: /h, data-dir: /d}\<close>, so no flag for the DAGs folder, and exactly the
  mounts \<open>[p, /h, /d]\<close>; no container execution is made.
\<close>

theorem buildFlagsAndMountDirs_init_row:
  assumes "getAbsolutePath en pd = Inr p" and "MkdirAll en p = None"
    and "airflowHome g = ''/h''" and "airflowDagsFolder g = []" and "dataDir g = ''/d''"
  shows "buildFlagsAndMountDirs en g w pd False True True True False =
           (w\<lparr>mkdirLog := mkdirLog w @ [p]\<rparr>,
            [''airflow-home'' \<mapsto> ''/h'', ''data-dir'' \<mapsto> ''/d''], [p, ''/h'', ''/d''], None)"
  using assms
  by (simp add: buildFlagsAndMountDirs_def getBaseMountDirs_ok setLocalDir_def
      getAbsolutePath_abs IsAbs_def)

theorem buildFlagsAndMountDirs_init_row_witness:
  "getAbsolutePath (testEnv dockerKeyDirs) ''proj'' = Inr ''/home/user/proj'' \<and>
   buildFlagsAndMountDirs (testEnv dockerKeyDirs)
       ((defaultGlobals ''.'')\<lparr>airflowHome := ''/h'', dataDir := ''/d''\<rparr>) emptyWorld ''proj''
       False True True True False =
     (\<lparr>dockerLog = [], mkdirLog = [''/home/user/proj'']\<rparr>,
      [''airflow-home'' \<mapsto> ''/h'', ''data-dir'' \<mapsto> ''/d''],
      [''/home/user/proj'', ''/h'', ''/d''], None)"
proof -
  have a: "getAbsolutePath (testEnv dockerKeyDirs) ''proj'' = Inr ''/home/user/proj''"
    by (simp add: getAbsolutePath_def IsAbs_def testEnv_def)
  have m: "MkdirAll (testEnv dockerKeyDirs) ''/home/user/proj'' = None"
    by (simp add: testEnv_def)
  from buildFlagsAndMountDirs_init_row [OF a m, of
      "(defaultGlobals ''.'')\<lparr>airflowHome := ''/h'', dataDir := ''/d''\<rparr>" emptyWorld] a
  show ?thesis by (simp add: defaultGlobals_def emptyWorld_def)
qed

section \<open>The loop over the global keys\<close>

lemma appendConfigKeyMountDir_log:
  assumes "appendConfigKeyMountDir en w k cf md = (w', md', err)"
  shows "\<exists>ev. dockerLog w' = dockerLog w @ [ev] \<and> mkdirLog w' = mkdirLog w \<and>
           fst ev = \<lparr>call_cmd = configCommandString, call_args = [k], call_flags = cf,
                     call_mountDirs = md, call_returnOutput = True\<rparr> \<and>
           snd ev = ExecuteCmdInDocker en (dockerLog w) (fst ev) \<and>
           (err = None \<longleftrightarrow> querySucceeded en ev) \<and> err = queryError en (snd ev)"
proof -
  let ?c = "\<lparr>call_cmd = configCommandString, call_args = [k], call_flags = cf,
             call_mountDirs = md, call_returnOutput = True\<rparr>"
  obtain ec out e0 where res: "ExecuteCmdInDocker en (dockerLog w) ?c = (ec, out, e0)"
    by (rule prod_cases3)
  have w': "w' = w\<lparr>dockerLog := dockerLog w @ [(?c, ec, out, e0)]\<rparr>"
    using assms res
    by (auto simp: appendConfigKeyMountDir_def Let_def split: option.splits if_splits sum.splits)
  have err: "err = queryError en (ec, out, e0)"
    using assms res
    by (auto simp: appendConfigKeyMountDir_def queryError_def Let_def
        split: option.splits if_splits sum.splits)
  have ok: "(queryError en (ec, out, e0) = None) = querySucceeded en (?c, ec, out, e0)"
    by (simp add: queryError_def querySucceeded_def split: option.splits sum.splits)
  show ?thesis
    by (rule exI [of _ "(?c, ec, out, e0)"]) (simp add: w' err ok res)
qed

lemma globalKeysLoop_log:
  assumes "globalKeysLoop en w ks cf md = (w', md', err)"
  shows "\<exists>new. dockerLog w' = dockerLog w @ new \<and> mkdirLog w' = mkdirLog w \<and>
           length new \<le> length ks \<and>
           map (\<lambda>x. call_args (fst x)) new = map (\<lambda>k. [k]) (take (length new) ks) \<and>
           (\<forall>ev \<in> set new. call_cmd (fst ev) = configCommandString \<and> call_flags (fst ev) = cf
                \<and> call_returnOutput (fst ev)) \<and>
           (\<forall>ev \<in> set (butlast new). querySucceeded en ev) \<and>
           (err = None \<longrightarrow> length new = length ks \<and> (\<forall>ev \<in> set new. querySucceeded en ev)) \<and>
           (err \<noteq> None \<longrightarrow> new \<noteq> [] \<and> \<not> querySucceeded en (last new)
                \<and> err = queryError en (snd (last new)))"
  using assms
proof (induction ks arbitrary: w md)
  case Nil
  then show ?case by simp
next
  case (Cons k ks)
  obtain w1 md1 e1 where a: "appendConfigKeyMountDir en w k cf md = (w1, md1, e1)"
    by (rule prod_cases3)
  from appendConfigKeyMountDir_log [OF a] obtain ev where
    ev: "dockerLog w1 = dockerLog w @ [ev]" "mkdirLog w1 = mkdirLog w"
      "fst ev = \<lparr>call_cmd = configCommandString, call_args = [k], call_flags = cf,
                 call_mountDirs = md, call_returnOutput = True\<rparr>"
      "e1 = None \<longleftrightarrow> querySucceeded en ev"
    and qe: "queryError en (snd ev) = e1"
    by metis
  show ?case
  proof (cases e1)
    case (Some e)
    with Cons.prems a have "w' = w1" "err = Some e" by simp_all
    with ev Some qe show ?thesis
      by (intro exI [of _ "[ev]"]) simp
  next
    case None
    with Cons.prems a have "globalKeysLoop en w1 ks cf md1 = (w', md', err)" by simp
    from Cons.IH [OF this] obtain new where
      n: "dockerLog w' = dockerLog w1 @ new" "mkdirLog w' = mkdirLog w1"
        "length new \<le> length ks"
        "map (\<lambda>x. call_args (fst x)) new = map (\<lambda>k. [k]) (take (length new) ks)"
        "\<forall>ev \<in> set new. call_cmd (fst ev) = configCommandString \<and> call_flags (fst ev) = cf
                \<and> call_returnOutput (fst ev)"
        "\<forall>ev \<in> set (butlast new). querySucceeded en ev"
        "err = None \<longrightarrow> length new = length ks \<and> (\<forall>ev \<in> set new. querySucceeded en ev)"
        "err \<noteq> None \<longrightarrow> new \<noteq> [] \<and> \<not> querySucceeded en (last new)
            \<and> err = queryError en (snd (last new))"
      by blast
    from None ev have ok: "querySucceeded en ev" by simp
    have b: "\<forall>x \<in> set (butlast (ev # new)). querySucceeded en x"
      using n(6) ok by (cases new) auto
    show ?thesis
      using ev n(1-5,7,8) ok b
      by (intro exI [of _ "ev # new"]) auto
  qed
qed


lemma set_butlast_last: "xs \<noteq> [] \<Longrightarrow> set xs = insert (last xs) (set (butlast xs))"
  by (cases xs rule: rev_cases) auto

lemma buildFlagsAndMountDirs_global_loop:
  assumes p: "getAbsolutePath en pd = Inr p" and mk: "MkdirAll en p = None"
    and r: "buildFlagsAndMountDirs en g w pd sp sh sf sd True = (w', fl, md, err)"
  shows "\<exists>md1 e1. globalKeysLoop en (w\<lparr>mkdirLog := mkdirLog w @ [p]\<rparr>) globalConfigKeys
                    [''project-dir'' \<mapsto> (if sp then p else pd)] [p] = (w', md1, e1) \<and>
                  (e1 \<noteq> None \<longrightarrow> err = e1 \<and> fl = Map.empty \<and> md = []) \<and>
                  (err = None \<longrightarrow> e1 = None)"
proof -
  obtain w2 md1 e1 where
    l: "globalKeysLoop en (w\<lparr>mkdirLog := mkdirLog w @ [p]\<rparr>) globalConfigKeys
          [''project-dir'' \<mapsto> (if sp then p else pd)] [p] = (w2, md1, e1)"
    by (rule prod_cases3)
  show ?thesis
  proof (cases e1)
    case (Some e)
    with r l p mk show ?thesis
      by (cases sp) (simp_all add: buildFlagsAndMountDirs_def getBaseMountDirs_ok)
  next
    case None
    with r l p mk show ?thesis
      by (cases sp)
        (auto simp: buildFlagsAndMountDirs_def getBaseMountDirs_ok split: sum.splits)
  qed
qed

lemma buildFlagsAndMountDirs_global_log:
  assumes p: "getAbsolutePath en pd = Inr p" and mk: "MkdirAll en p = None"
    and r: "buildFlagsAndMountDirs en g w pd sp sh sf sd True = (w', fl, md, err)"
  shows "\<exists>new. dockerLog w' = dockerLog w @ new \<and> new \<noteq> [] \<and> length new \<le> 3 \<and>
           map (\<lambda>x. call_args (fst x)) new = map (\<lambda>k. [k]) (take (length new) globalConfigKeys) \<and>
           (\<forall>ev \<in> set new. call_cmd (fst ev) = configCommandString \<and> call_returnOutput (fst ev)) \<and>
           (\<forall>ev \<in> set (butlast new). querySucceeded en ev) \<and>
           (querySucceeded en (last new) \<longrightarrow> length new = 3) \<and>
           (err = None \<longrightarrow> querySucceeded en (last new)) \<and>
           (\<not> querySucceeded en (last new) \<longrightarrow>
              err = queryError en (snd (last new)) \<and> err \<noteq> None \<and> fl = Map.empty \<and> md = [])"
proof -
  from buildFlagsAndMountDirs_global_loop [OF p mk r] obtain md1 e1 where
    l: "globalKeysLoop en (w\<lparr>mkdirLog := mkdirLog w @ [p]\<rparr>) globalConfigKeys
          [''project-dir'' \<mapsto> (if sp then p else pd)] [p] = (w', md1, e1)"
    and e: "e1 \<noteq> None \<longrightarrow> err = e1 \<and> fl = Map.empty \<and> md = []" "err = None \<longrightarrow> e1 = None"
    by blast
  from globalKeysLoop_log [OF l] obtain new where
    n: "dockerLog w' = dockerLog w @ new"
      "length new \<le> length globalConfigKeys"
      "map (\<lambda>x. call_args (fst x)) new = map (\<lambda>k. [k]) (take (length new) globalConfigKeys)"
      "\<forall>ev \<in> set new. call_cmd (fst ev) = configCommandString \<and>
          call_flags (fst ev) = [''project-dir'' \<mapsto> (if sp then p else pd)] \<and>
          call_returnOutput (fst ev)"
      "\<forall>ev \<in> set (butlast new). querySucceeded en ev"
      "e1 = None \<longrightarrow> length new = length globalConfigKeys \<and> (\<forall>ev \<in> set new. querySucceeded en ev)"
      "e1 \<noteq> None \<longrightarrow> new \<noteq> [] \<and> \<not> querySucceeded en (last new)
            \<and> e1 = queryError en (snd (last new))"
    by auto
  have len: "length globalConfigKeys = 3" by (simp add: globalConfigKeys_def)
  have ne: "new \<noteq> []" using n(6,7) len by (cases e1) auto
  show ?thesis
  proof (cases e1)
    case None
    with n ne len e show ?thesis
      by (intro exI [of _ new]) auto
  next
    case (Some x)
    with n ne len e show ?thesis
      by (intro exI [of _ new]) auto
  qed
qed

lemma buildFlagsAndMountDirs_base_fails:
  assumes "\<not> (\<exists>p. getAbsolutePath en pd = Inr p \<and> MkdirAll en p = None)"
    and "buildFlagsAndMountDirs en g w pd sp sh sf sd mg = (w', fl, md, err)"
  shows "dockerLog w' = dockerLog w \<and> err \<noteq> None"
proof (cases "getAbsolutePath en pd")
  case (Inl e)
  with assms(2) show ?thesis
    by (auto simp: buildFlagsAndMountDirs_def getBaseMountDirs_def createProjectDir_def)
next
  case (Inr p)
  with assms(1) obtain e where "MkdirAll en p = Some e" by auto
  with Inr assms(2) show ?thesis
    by (auto simp: buildFlagsAndMountDirs_def getBaseMountDirs_def createProjectDir_def Let_def)
qed

text \<open>
  Claim C4. With the global mounts requested, the sub-invocations made by one composition are
  the config queries of a prefix of the keys \<open>airflow_home\<close>, \<open>airflow_dags_folder\<close>,
  \<open>data_dir\<close>, one per key and in that order; every query but the last one made has
  succeeded, so none is made after a failed one and a failing third query comes after the
  first two; the prefix stops short only at a failed query; a successful composition has made
  all three; and none is made only when the base mount could not be built.
\<close>

theorem global_keys_queried_in_order:
  assumes "buildFlagsAndMountDirs en g w pd sp sh sf sd True = (w', fl, md, err)"
  shows "\<exists>new. dockerLog w' = dockerLog w @ new \<and> length new \<le> 3 \<and>
           map (\<lambda>x. call_args (fst x)) new =
             map (\<lambda>k. [k]) (take (length new) [''airflow_home'', ''airflow_dags_folder'', ''data_dir'']) \<and>
           (\<forall>ev \<in> set new. call_cmd (fst ev) = [''config''] \<and> call_returnOutput (fst ev)) \<and>
           (\<forall>ev \<in> set (butlast new). querySucceeded en ev) \<and>
           (new \<noteq> [] \<and> length new < 3 \<longrightarrow> \<not> querySucceeded en (last new)) \<and>
           (err = None \<longrightarrow> length new = 3 \<and> (\<forall>ev \<in> set new. querySucceeded en ev)) \<and>
           (new = [] \<longleftrightarrow> \<not> (\<exists>p. getAbsolutePath en pd = Inr p \<and> MkdirAll en p = None))"
proof (cases "\<exists>p. getAbsolutePath en pd = Inr p \<and> MkdirAll en p = None")
  case False
  from buildFlagsAndMountDirs_base_fails [OF False assms]
  have "dockerLog w' = dockerLog w" "err \<noteq> None" by simp_all
  with False show ?thesis
    by (intro exI [of _ "[]"]) simp
next
  case True
  then obtain p where p: "getAbsolutePath en pd = Inr p" and mk: "MkdirAll en p = None"
    by blast
  from buildFlagsAndMountDirs_global_log [OF p mk assms] obtain new where
    n: "dockerLog w' = dockerLog w @ new" "new \<noteq> []" "length new \<le> 3"
      "map (\<lambda>x. call_args (fst x)) new = map (\<lambda>k. [k]) (take (length new) globalConfigKeys)"
      "\<forall>ev \<in> set new. call_cmd (fst ev) = configCommandString \<and> call_returnOutput (fst ev)"
      "\<forall>ev \<in> set (butlast new). querySucceeded en ev"
      "querySucceeded en (last new) \<longrightarrow> length new = 3"
      "err = None \<longrightarrow> querySucceeded en (last new)"
    by blast
  have all: "\<forall>ev \<in> set new. querySucceeded en ev" if "err = None"
  proof -
    from that n(8) have "querySucceeded en (last new)" by simp
    with n(6) set_butlast_last [OF n(2)] show ?thesis by auto
  qed
  have short: "new \<noteq> [] \<and> length new < 3 \<longrightarrow> \<not> querySucceeded en (last new)"
    using n(7) by auto
  have full: "err = None \<longrightarrow> length new = 3 \<and> (\<forall>ev \<in> set new. querySucceeded en ev)"
    using n(7,8) all by blast
  have reached: "new = [] \<longleftrightarrow> \<not> (\<exists>p. getAbsolutePath en pd = Inr p \<and> MkdirAll en p = None)"
    using n(2) True by simp
  note keys = n(4) [unfolded globalConfigKeys_def]
  note cmds = n(5) [unfolded configCommandString_def]
  show ?thesis
    by (rule exI [of _ new]) (intro conjI n(1) n(3) keys cmds n(6) short full reached)
qed

theorem global_keys_queried_in_order_witness:
  "(case buildFlagsAndMountDirs (testEnv (dockerKeyAnswer ''data_dir'' (1, [], None)))
           (defaultGlobals ''/tmp/proj'') emptyWorld ''/tmp/proj'' True False False False True of
      (w', fl, md, err) \<Rightarrow>
        map (\<lambda>x. call_args (fst x)) (dockerLog w') =
          [[''airflow_home''], [''airflow_dags_folder''], [''data_dir'']] \<and>
        querySucceeded (testEnv (dockerKeyAnswer ''data_dir'' (1, [], None))) (dockerLog w' ! 0) \<and>
        querySucceeded (testEnv (dockerKeyAnswer ''data_dir'' (1, [], None))) (dockerLog w' ! 1) \<and>
        \<not> querySucceeded (testEnv (dockerKeyAnswer ''data_dir'' (1, [], None))) (dockerLog w' ! 2) \<and>
        err = Some (DockerNonZeroExitCodeError 1))"
proof -
  let ?E = "testEnv (dockerKeyAnswer ''data_dir'' (1, [], None))"
  obtain w' fl md err where
    r: "buildFlagsAndMountDirs ?E (defaultGlobals ''/tmp/proj'') emptyWorld ''/tmp/proj''
          True False False False True = (w', fl, md, err)"
    by (rule prod_cases4)
  from r have e: "err = Some (DockerNonZeroExitCodeError 1)"
    by (simp add: run_defs)
  from r have l: "length (dockerLog w') = 3"
    by (auto simp: run_defs)
  from global_keys_queried_in_order [OF r] obtain new where
    n: "dockerLog w' = dockerLog emptyWorld @ new" "length new \<le> 3"
      "map (\<lambda>x. call_args (fst x)) new =
         map (\<lambda>k. [k]) (take (length new) [''airflow_home'', ''airflow_dags_folder'', ''data_dir''])"
      "\<forall>ev \<in> set (butlast new). querySucceeded ?E ev"
    by blast
  from n(1) have nw: "new = dockerLog w'" by (simp add: emptyWorld_def)
  from r have f: "\<not> querySucceeded ?E (dockerLog w' ! 2)"
    by (auto simp: run_defs querySucceeded_def)
  from l obtain x y z where xyz: "dockerLog w' = [x, y, z]"
    by (auto simp: length_Suc_conv numeral_3_eq_3)
  from n(3,4) nw xyz e f r show ?thesis by simp
qed

text \<open>
  Claim C5 says that the error of a failed query names the key that was queried. It does
  not: a failure of the first key and the same failure of the third key give the same error.
\<close>

theorem failed_key_query_error_counterexample:
  "snd (snd (snd (buildFlagsAndMountDirs
       (testEnv (dockerKeyAnswer ''airflow_home'' (0, [], Some (External ''mock error''))))
       (defaultGlobals ''/tmp/proj'') emptyWorld ''/tmp/proj'' True False False False True))) =
     Some (ErrRunning [''config''] (External ''mock error'')) \<and>
   snd (snd (snd (buildFlagsAndMountDirs
       (testEnv (dockerKeyAnswer ''data_dir'' (0, [], Some (External ''mock error''))))
       (defaultGlobals ''/tmp/proj'') emptyWorld ''/tmp/proj'' True False False False True))) =
     Some (ErrRunning [''config''] (External ''mock error'')) \<and>
   call_args (fst (last (dockerLog (fst (buildFlagsAndMountDirs
       (testEnv (dockerKeyAnswer ''airflow_home'' (0, [], Some (External ''mock error''))))
       (defaultGlobals ''/tmp/proj'') emptyWorld ''/tmp/proj'' True False False False True))))) =
     [''airflow_home''] \<and>
   call_args (fst (last (dockerLog (fst (buildFlagsAndMountDirs
       (testEnv (dockerKeyAnswer ''data_dir'' (0, [], Some (External ''mock error''))))
       (defaultGlobals ''/tmp/proj'') emptyWorld ''/tmp/proj'' True False False False True))))) =
     [''data_dir'']"
  by (simp add: run_defs)

text \<open>
  Claim C5, amended. When the query of a global key fails, the error the composer returns is
  made of the answer of that sub-invocation alone: the error of the execution wrapped with
  the command tokens \<open>[config]\<close>, or \<open>DockerNonZeroExitCodeError\<close> with the exit code, or
  the error of the decoder unchanged. It names the command and not the key.
\<close>

theorem failed_key_query_error:
  assumes "getAbsolutePath en pd = Inr p" and "MkdirAll en p = None"
    and "buildFlagsAndMountDirs en g w pd sp sh sf sd True = (w', fl, md, err)"
    and "\<not> querySucceeded en (last (dockerLog w'))"
  shows "(case snd (last (dockerLog w')) of
            (exitCode, output, Some e) \<Rightarrow> err = Some (ErrRunning [''config''] e)
          | (exitCode, output, None) \<Rightarrow>
              if exitCode \<noteq> 0 then err = Some (DockerNonZeroExitCodeError exitCode)
              else (case ConvertReadCloserToString en output of
                      Inl e \<Rightarrow> err = Some e
                    | Inr s \<Rightarrow> False))"
proof -
  from buildFlagsAndMountDirs_global_log [OF assms(1-3)] obtain new where
    n: "dockerLog w' = dockerLog w @ new" "new \<noteq> []"
      "\<not> querySucceeded en (last new) \<longrightarrow> err = queryError en (snd (last new))"
    by blast
  from n(1,2) have "last (dockerLog w') = last new" by simp
  with n(3) assms(4) have q: "err = queryError en (snd (last (dockerLog w')))" by simp
  obtain ec out e0 where res: "snd (last (dockerLog w')) = (ec, out, e0)"
    by (rule prod_cases3)
  show ?thesis
  proof (cases e0)
    case (Some e)
    with q res show ?thesis
      by (simp add: queryError_def configCommandString_def)
  next
    case None
    show ?thesis
    proof (cases "ec = 0")
      case False
      with q res None show ?thesis
        by (simp add: queryError_def)
    next
      case True
      with assms(4) res None obtain e where "ConvertReadCloserToString en out = Inl e"
        by (cases "ConvertReadCloserToString en out") (simp_all add: querySucceeded_def)
      with q res None True show ?thesis
        by (simp add: queryError_def)
    qed
  qed
qed

theorem failed_key_query_error_witness:
  "(case buildFlagsAndMountDirs (testEnv (dockerKeyAnswer ''airflow_dags_folder'' (1, [], None)))
           (defaultGlobals ''/tmp/proj'') emptyWorld ''/tmp/proj'' True False False False True of
      (w', fl, md, err) \<Rightarrow>
        snd (last (dockerLog w')) = (1, [], None) \<and>
        err = Some (DockerNonZeroExitCodeError 1))"
proof -
  let ?E = "testEnv (dockerKeyAnswer ''airflow_dags_folder'' (1, [], None))"
  obtain w' fl md err where
    r: "buildFlagsAndMountDirs ?E (defaultGlobals ''/tmp/proj'') emptyWorld ''/tmp/proj''
          True False False False True = (w', fl, md, err)"
    by (rule prod_cases4)
  have a: "getAbsolutePath ?E ''/tmp/proj'' = Inr ''/tmp/proj''"
    by (simp add: getAbsolutePath_def IsAbs_def)
  have m: "MkdirAll ?E ''/tmp/proj'' = None"
    by (simp add: testEnv_def)
  from r have l: "snd (last (dockerLog w')) = (1, [], None)"
    by (auto simp: run_defs)
  then have f: "\<not> querySucceeded ?E (last (dockerLog w'))"
    by (simp add: querySucceeded_def)
  from failed_key_query_error [OF a m r f] l r show ?thesis by simp
qed

text \<open>
  Claim C6 says that the composer returns the partly built mount list with the error. When
  the second key fails the loop holds \<open>[/tmp/proj, /a]\<close>, and the composer returns the nil
  list.
\<close>

theorem failed_key_query_aborts_counterexample:
  "fst (snd (globalKeysLoop (testEnv (dockerKeyAnswer ''airflow_dags_folder'' (1, [], None)))
          \<lparr>dockerLog = [], mkdirLog = [''/tmp/proj'']\<rparr> globalConfigKeys
          [''project-dir'' \<mapsto> ''/tmp/proj''] [''/tmp/proj''])) = [''/tmp/proj'', ''/a''] \<and>
   snd (buildFlagsAndMountDirs (testEnv (dockerKeyAnswer ''airflow_dags_folder'' (1, [], None)))
          (defaultGlobals ''/tmp/proj'') emptyWorld ''/tmp/proj'' True False False False True) =
     (Map.empty, [], Some (DockerNonZeroExitCodeError 1))"
  by (simp add: run_defs)

text \<open>
  Claim C6, amended. When the sub-invocation of a global key fails, the composition stops
  there: the failed sub-invocation is the last one made, and the composer returns the error
  with nil flags and a nil mount list, not the partly built list.
\<close>

theorem failed_key_query_aborts:
  assumes "getAbsolutePath en pd = Inr p" and "MkdirAll en p = None"
    and "buildFlagsAndMountDirs en g w pd sp sh sf sd True = (w', fl, md, err)"
    and "dockerLog w' = dockerLog w @ new" and "ev \<in> set new" and "\<not> querySucceeded en ev"
  shows "ev = last new \<and> ev \<notin> set (butlast new) \<and> err \<noteq> None \<and> fl = Map.empty \<and> md = []"
proof -
  from buildFlagsAndMountDirs_global_log [OF assms(1-3)] obtain new' where
    n: "dockerLog w' = dockerLog w @ new'" "new' \<noteq> []"
      "\<forall>ev \<in> set (butlast new'). querySucceeded en ev"
      "\<not> querySucceeded en (last new') \<longrightarrow> err \<noteq> None \<and> fl = Map.empty \<and> md = []"
    by blast
  from n(1) assms(4) have eq: "new' = new" by simp
  from assms(5,6) n(3) eq have nb: "ev \<notin> set (butlast new)" by auto
  from set_butlast_last [of new] n(2) eq assms(5) nb have l: "ev = last new" by auto
  with n(4) eq assms(6) nb show ?thesis by simp
qed

theorem failed_key_query_aborts_witness:
  "(case buildFlagsAndMountDirs (testEnv (dockerKeyAnswer ''airflow_home'' (1, [], None)))
           (defaultGlobals ''/tmp/proj'') emptyWorld ''/tmp/proj'' True False False False True of
      (w', fl, md, err) \<Rightarrow>
        length (dockerLog w') = 1 \<and>
        \<not> querySucceeded (testEnv (dockerKeyAnswer ''airflow_home'' (1, [], None)))
            (last (dockerLog w')) \<and>
        err \<noteq> None \<and> fl = Map.empty \<and> md = [])"
proof -
  let ?E = "testEnv (dockerKeyAnswer ''airflow_home'' (1, [], None))"
  obtain w' fl md err where
    r: "buildFlagsAndMountDirs ?E (defaultGlobals ''/tmp/proj'') emptyWorld ''/tmp/proj''
          True False False False True = (w', fl, md, err)"
    by (rule prod_cases4)
  have a: "getAbsolutePath ?E ''/tmp/proj'' = Inr ''/tmp/proj''"
    by (simp add: getAbsolutePath_def IsAbs_def)
  have m: "MkdirAll ?E ''/tmp/proj'' = None"
    by (simp add: testEnv_def)
  from r have l: "length (dockerLog w') = 1" and s: "snd (last (dockerLog w')) = (1, [], None)"
    by (auto simp: run_defs)
  from s have f: "\<not> querySucceeded ?E (last (dockerLog w'))"
    by (simp add: querySucceeded_def)
  from l have i: "last (dockerLog w') \<in> set (dockerLog w')"
    by (cases "dockerLog w'") auto
  have d: "dockerLog w' = dockerLog emptyWorld @ dockerLog w'"
    by (simp add: emptyWorld_def)
  from failed_key_query_aborts [OF a m r d i f] l f r show ?thesis by simp
qed

section \<open>Missing arguments\<close>

text \<open>
  Claim C7. With an empty argument list, \<open>executeGenerate\<close> and \<open>executeRun\<close> return the
  error \<open>ArgNotSetError\<close> naming \<open>workflow_name\<close>, and the world they return is the one they
  were given: no directory was created and the container execution was not called.
\<close>

theorem missing_workflow_name:
  "executeGenerate en g w name [] = (g, w, Returned (Some (ArgNotSetError ''workflow_name''))) \<and>
   executeRun en g w name [] = (g, w, Returned (Some (ArgNotSetError ''workflow_name'')))"
  by (simp add: executeGenerate_def executeRun_def)

theorem missing_workflow_name_witness:
  "executeGenerate (testEnv dockerKeyDirs) (defaultGlobals ''/tmp/proj'') emptyWorld ''generate'' [] =
     (defaultGlobals ''/tmp/proj'', \<lparr>dockerLog = [], mkdirLog = []\<rparr>,
      Returned (Some (ArgNotSetError ''workflow_name''))) \<and>
   executeRun (testEnv dockerKeyDirs) (defaultGlobals ''/tmp/proj'') emptyWorld ''run'' [] =
     (defaultGlobals ''/tmp/proj'', \<lparr>dockerLog = [], mkdirLog = []\<rparr>,
      Returned (Some (ArgNotSetError ''workflow_name'')))"
  using missing_workflow_name [of "testEnv dockerKeyDirs" "defaultGlobals ''/tmp/proj''" emptyWorld]
  by (simp add: emptyWorld_def)

section \<open>Dispatch\<close>

lemma executeCmd_log:
  assumes "executeCmd en g w name args fl md = (w', r)"
  shows "\<exists>res. dockerLog w' = dockerLog w @
              [(\<lparr>call_cmd = (if debug g then [''--debug'', name] else [name]), call_args = args,
                 call_flags = fl, call_mountDirs = md, call_returnOutput = False\<rparr>, res)] \<and>
            mkdirLog w' = mkdirLog w \<and>
            (r = None \<longleftrightarrow> fst res = 0 \<and> snd (snd res) = None)"
proof -
  let ?c = "\<lparr>call_cmd = (if debug g then [''--debug'', name] else [name]), call_args = args,
             call_flags = fl, call_mountDirs = md, call_returnOutput = False\<rparr>"
  obtain ec out e0 where res: "ExecuteCmdInDocker en (dockerLog w) ?c = (ec, out, e0)"
    by (rule prod_cases3)
  from assms res have "w' = w\<lparr>dockerLog := dockerLog w @ [(?c, ec, out, e0)]\<rparr>"
    by (auto simp: executeCmd_def Let_def split: option.splits if_splits)
  moreover from assms res have "r = None \<longleftrightarrow> ec = 0 \<and> e0 = None"
    by (auto simp: executeCmd_def Let_def split: option.splits if_splits)
  ultimately show ?thesis
    by (intro exI [of _ "(ec, out, e0)"]) simp
qed

lemma buildFlagsAndMountDirs_local_log:
  assumes "buildFlagsAndMountDirs en g w pd sp sh sf sd False = (w', fl, md, err)"
  shows "dockerLog w' = dockerLog w"
proof -
  obtain w1 b where base: "getBaseMountDirs en w pd = (w1, b)"
    by (rule prod.exhaust)
  then have l: "dockerLog w1 = dockerLog w"
    by (auto simp: getBaseMountDirs_def createProjectDir_def Let_def
        split: sum.splits option.splits)
  from assms base have "w' = w1"
    by (auto simp: buildFlagsAndMountDirs_def split: sum.splits if_splits prod.splits)
  with l show ?thesis by simp
qed


lemma executeCmd_returns:
  assumes "executeCmd en g w name args fl md = (w', r)"
  shows "r = None \<longrightarrow> lastRunSucceeded w'"
  using executeCmd_log [OF assms]
  by (auto simp: lastRunSucceeded_def split: prod.splits)

lemma executeBase_returns:
  assumes "executeBase en g w name args = (g', w', out)"
  shows "\<exists>r. out = Returned r \<and> (r = None \<longrightarrow> lastRunSucceeded w')"
proof -
  obtain w1 fl md e where
    b: "buildFlagsAndMountDirs en g w (projectDir g) False False False False False = (w1, fl, md, e)"
    by (rule prod_cases4)
  show ?thesis
  proof (cases e)
    case (Some x)
    with assms b show ?thesis by (auto simp: executeBase_def)
  next
    case None
    obtain w2 r where c: "executeCmd en g w1 name args fl md = (w2, r)"
      by (rule prod.exhaust)
    from assms b None c have "out = Returned r" "w' = w2"
      by (simp_all add: executeBase_def)
    with executeCmd_returns [OF c] show ?thesis by simp
  qed
qed

lemma executeConfig_returns:
  assumes "executeConfig en g w name args = (g', w', out)"
  shows "\<exists>r. out = Returned r \<and> (r = None \<longrightarrow> lastRunSucceeded w')"
proof (cases "length args < 1")
  case True
  with assms show ?thesis by (auto simp: executeConfig_def)
next
  case False
  obtain w1 fl md e where
    b: "buildFlagsAndMountDirs en g w (projectDir g) True False False False False = (w1, fl, md, e)"
    by (rule prod_cases4)
  show ?thesis
  proof (cases e)
    case (Some x)
    with assms b False show ?thesis by (auto simp: executeConfig_def)
  next
    case None
    obtain w2 r where c: "executeCmd en g w1 name args (setEnv g fl) md = (w2, r)"
      by (rule prod.exhaust)
    from assms b None c False have "out = Returned r" "w' = w2"
      by (simp_all add: executeConfig_def)
    with executeCmd_returns [OF c] show ?thesis by simp
  qed
qed

lemma executeGenerate_returns:
  assumes "executeGenerate en g w name args = (g', w', out)"
  shows "\<exists>r. out = Returned r \<and> (r = None \<longrightarrow> lastRunSucceeded w')"
proof (cases "length args < 1")
  case True
  with assms show ?thesis by (auto simp: executeGenerate_def)
next
  case False
  obtain w1 fl md e where
    b: "buildFlagsAndMountDirs en g w (projectDir g) True False False False True = (w1, fl, md, e)"
    by (rule prod_cases4)
  show ?thesis
  proof (cases e)
    case (Some x)
    with assms b False show ?thesis by (auto simp: executeGenerate_def)
  next
    case None
    let ?a1 = "if generateTasks g then args @ [''--generate-tasks''] else args"
    let ?a2 = "if noGenerateTasks g then ?a1 @ [''--no-generate-tasks''] else ?a1"
    let ?a3 = "if verbose g then ?a2 @ [''--verbose''] else ?a2"
    obtain w2 r where c: "executeCmd en g w1 name ?a3 (setEnv g fl) md = (w2, r)"
      by (rule prod.exhaust)
    from assms b None c False have "out = Returned r" "w' = w2"
      by (simp_all add: executeGenerate_def Let_def)
    with executeCmd_returns [OF c] show ?thesis by simp
  qed
qed

lemma executeRun_returns:
  assumes "executeRun en g w name args = (g', w', out)"
  shows "\<exists>r. out = Returned r \<and> (r = None \<longrightarrow> lastRunSucceeded w')"
proof (cases "length args < 1")
  case True
  with assms show ?thesis by (auto simp: executeRun_def)
next
  case False
  obtain w1 fl md e where
    b: "buildFlagsAndMountDirs en g w (projectDir g) True False False False True = (w1, fl, md, e)"
    by (rule prod_cases4)
  show ?thesis
  proof (cases e)
    case (Some x)
    with assms b False show ?thesis by (auto simp: executeRun_def)
  next
    case None
    let ?a1 = "if verbose g then args @ [''--verbose''] else args"
    let ?a2 = "if generateTasks g then ?a1 @ [''--generate-tasks''] else ?a1"
    let ?a3 = "if noGenerateTasks g then ?a2 @ [''--no-generate-tasks''] else ?a2"
    obtain w2 r where c: "executeCmd en g w1 name ?a3 (setEnv g fl) md = (w2, r)"
      by (rule prod.exhaust)
    from assms b None c False have "out = Returned r" "w' = w2"
      by (simp_all add: executeRun_def Let_def)
    with executeCmd_returns [OF c] show ?thesis by simp
  qed
qed

text \<open>What \<open>executeInit\<close> does: it fails in the composition, or it dispatches once.\<close>

lemma executeInit_cases:
  assumes "executeInit en g w name args = (g', w', out)"
  shows "(\<exists>e. out = Returned (Some e) \<and> dockerLog w' = dockerLog w) \<or>
         (\<exists>p fl md r res.
            getAbsolutePath en (if args = [] then projectDir g else hd args) = Inr p \<and>
            md \<noteq> [] \<and> hd md = p \<and> out = Returned r \<and>
            (r = None \<longrightarrow> lastRunSucceeded w') \<and>
            dockerLog w' = dockerLog w @
              [(\<lparr>call_cmd = (if debug g then [''--debug'', name] else [name]), call_args = [p],
                 call_flags = fl, call_mountDirs = md, call_returnOutput = False\<rparr>, res)])"
proof -
  let ?g = "if length args > 0 then g\<lparr>projectDir := args ! 0\<rparr> else g"
  let ?pd = "if args = [] then projectDir g else hd args"
  have pd: "projectDir ?g = ?pd"
    by (cases args) simp_all
  have dbg: "debug ?g = debug g" by simp
  obtain w1 fl md e where
    b: "buildFlagsAndMountDirs en ?g w ?pd False True True True False = (w1, fl, md, e)"
    by (rule prod_cases4)
  from buildFlagsAndMountDirs_local_log [OF b] have l: "dockerLog w1 = dockerLog w" .
  show ?thesis
  proof (cases e)
    case (Some x)
    with assms b pd l show ?thesis
      by (auto simp: executeInit_def Let_def)
  next
    case None
    from buildFlagsAndMountDirs_ok_mounts [OF b [unfolded None]] obtain p rest where
      p: "getAbsolutePath en ?pd = Inr p" "md = p # rest" by blast
    obtain w2 r where c: "executeCmd en ?g w1 name [p] fl md = (w2, r)"
      by (rule prod.exhaust)
    from assms b None c p pd have o: "out = Returned r" "w' = w2"
      by (simp_all add: executeInit_def Let_def)
    from executeCmd_log [OF c] l dbg obtain res where
      "dockerLog w2 = dockerLog w @
         [(\<lparr>call_cmd = (if debug g then [''--debug'', name] else [name]), call_args = [p],
            call_flags = fl, call_mountDirs = md, call_returnOutput = False\<rparr>, res)]"
      by auto
    with o p executeCmd_returns [OF c] show ?thesis
      by (intro disjI2 exI [of _ p] exI [of _ fl] exI [of _ md] exI [of _ r] exI [of _ res]) simp
  qed
qed


text \<open>The same for \<open>executeValidate\<close>, whose dispatch may carry the verbose token.\<close>

lemma executeValidate_cases:
  assumes "executeValidate en g w name args = (g', w', out)"
  shows "(\<exists>e. out = Returned (Some e) \<and> dockerLog w' = dockerLog w) \<or>
         (\<exists>p fl md r res.
            getAbsolutePath en (if args = [] then projectDir g else hd args) = Inr p \<and>
            md \<noteq> [] \<and> hd md = p \<and> out = Returned r \<and>
            (r = None \<longrightarrow> lastRunSucceeded w') \<and>
            dockerLog w' = dockerLog w @
              [(\<lparr>call_cmd = (if debug g then [''--debug'', name] else [name]),
                 call_args = (if verbose g then [p, ''--verbose''] else [p]),
                 call_flags = fl, call_mountDirs = md, call_returnOutput = False\<rparr>, res)])"
proof -
  let ?g = "if length args > 0 then g\<lparr>projectDir := args ! 0\<rparr> else g"
  let ?pd = "if args = [] then projectDir g else hd args"
  have pd: "projectDir ?g = ?pd"
    by (cases args) simp_all
  have same: "debug ?g = debug g" "verbose ?g = verbose g" "connection ?g = connection g"
    by simp_all
  obtain w1 fl md e where
    b: "buildFlagsAndMountDirs en ?g w ?pd False False False False False = (w1, fl, md, e)"
    by (rule prod_cases4)
  from buildFlagsAndMountDirs_local_log [OF b] have l: "dockerLog w1 = dockerLog w" .
  show ?thesis
  proof (cases e)
    case (Some x)
    with assms b pd l show ?thesis
      by (auto simp: executeValidate_def Let_def)
  next
    case None
    from buildFlagsAndMountDirs_ok_mounts [OF b [unfolded None]] obtain p rest where
      p: "getAbsolutePath en ?pd = Inr p" "md = p # rest" by blast
    let ?fl = "if connection g \<noteq> [] then (setEnv ?g fl)(''connection'' \<mapsto> connection g)
               else setEnv ?g fl"
    let ?args = "if verbose g then [p, ''--verbose''] else [p]"
    obtain w2 r where c: "executeCmd en ?g w1 name ?args ?fl md = (w2, r)"
      by (rule prod.exhaust)
    from assms b None c p pd same have o: "out = Returned r" "w' = w2"
      by (auto simp: executeValidate_def Let_def split: if_splits)
    from executeCmd_log [OF c] l same(1) obtain res where
      "dockerLog w2 = dockerLog w @
         [(\<lparr>call_cmd = (if debug g then [''--debug'', name] else [name]), call_args = ?args,
            call_flags = ?fl, call_mountDirs = md, call_returnOutput = False\<rparr>, res)]"
      by auto
    with o p executeCmd_returns [OF c] show ?thesis
      by (intro disjI2 exI [of _ p] exI [of _ ?fl] exI [of _ md] exI [of _ r] exI [of _ res]) simp
  qed
qed

lemma executeInit_returns:
  assumes "executeInit en g w name args = (g', w', out)"
  shows "\<exists>r. out = Returned r \<and> (r = None \<longrightarrow> lastRunSucceeded w')"
  using executeInit_cases [OF assms] by auto

lemma executeValidate_returns:
  assumes "executeValidate en g w name args = (g', w', out)"
  shows "\<exists>r. out = Returned r \<and> (r = None \<longrightarrow> lastRunSucceeded w')"
  using executeValidate_cases [OF assms] by auto

lemma handlers_return:
  assumes "h \<in> set handlers"
  shows "\<exists>r. snd (snd (h en g w name args)) = Returned r \<and>
             (r = None \<longrightarrow> lastRunSucceeded (fst (snd (h en g w name args))))"
proof -
  obtain g' w' out where r: "h en g w name args = (g', w', out)"
    by (rule prod_cases3)
  from assms consider "h = executeBase" | "h = executeInit" | "h = executeConfig"
    | "h = executeValidate" | "h = executeGenerate" | "h = executeRun"
    by (auto simp: handlers_def)
  then have "\<exists>r. out = Returned r \<and> (r = None \<longrightarrow> lastRunSucceeded w')"
  proof cases
    case 1
    with r show ?thesis by (simp add: executeBase_returns)
  next
    case 2
    with r show ?thesis by (simp add: executeInit_returns)
  next
    case 3
    with r show ?thesis by (simp add: executeConfig_returns)
  next
    case 4
    with r show ?thesis by (simp add: executeValidate_returns)
  next
    case 5
    with r show ?thesis by (simp add: executeGenerate_returns)
  next
    case 6
    with r show ?thesis by (simp add: executeRun_returns)
  qed
  with r show ?thesis by simp
qed

text \<open>Every handler follows its row of the table.\<close>

lemma executeBase_followsRow:
  "followsRow en g w name args (executeBase, None, False, False, False, False, False, False)"
proof -
  obtain w1 fl md e where
    b: "buildFlagsAndMountDirs en g w (projectDir g) False False False False False = (w1, fl, md, e)"
    by (rule prod_cases4)
  show ?thesis
  proof (cases e)
    case (Some x)
    with b show ?thesis by (simp add: followsRow_def executeBase_def)
  next
    case None
    with b have "executeBase en g w name args =
        (g, fst (executeCmd en g w1 name args fl md), Returned (snd (executeCmd en g w1 name args fl md)))"
      by (simp add: executeBase_def split: prod.splits)
    with b None show ?thesis
      by (auto simp: followsRow_def)
  qed
qed

lemma executeConfig_followsRow:
  "followsRow en g w name args (executeConfig, Some ''key'', False, True, False, False, False, False)"
proof (cases "args = []")
  case True
  then show ?thesis by (simp add: followsRow_def executeConfig_def)
next
  case False
  obtain w1 fl md e where
    b: "buildFlagsAndMountDirs en g w (projectDir g) True False False False False = (w1, fl, md, e)"
    by (rule prod_cases4)
  show ?thesis
  proof (cases e)
    case (Some x)
    with b False show ?thesis by (simp add: followsRow_def executeConfig_def)
  next
    case None
    with b False have "executeConfig en g w name args =
        (g, fst (executeCmd en g w1 name args (setEnv g fl) md),
         Returned (snd (executeCmd en g w1 name args (setEnv g fl) md)))"
      by (simp add: executeConfig_def split: prod.splits)
    with b None False show ?thesis
      by (auto simp: followsRow_def)
  qed
qed

lemma executeGenerate_followsRow:
  "followsRow en g w name args
     (executeGenerate, Some ''workflow_name'', False, True, False, False, False, True)"
proof (cases "args = []")
  case True
  then show ?thesis by (simp add: followsRow_def executeGenerate_def)
next
  case False
  obtain w1 fl md e where
    b: "buildFlagsAndMountDirs en g w (projectDir g) True False False False True = (w1, fl, md, e)"
    by (rule prod_cases4)
  show ?thesis
  proof (cases e)
    case (Some x)
    with b False show ?thesis by (simp add: followsRow_def executeGenerate_def)
  next
    case None
    let ?a1 = "if generateTasks g then args @ [''--generate-tasks''] else args"
    let ?a2 = "if noGenerateTasks g then ?a1 @ [''--no-generate-tasks''] else ?a1"
    let ?a3 = "if verbose g then ?a2 @ [''--verbose''] else ?a2"
    from b None False have "executeGenerate en g w name args =
        (g, fst (executeCmd en g w1 name ?a3 (setEnv g fl) md),
         Returned (snd (executeCmd en g w1 name ?a3 (setEnv g fl) md)))"
      by (simp add: executeGenerate_def Let_def split: prod.splits)
    with b None False show ?thesis
      by (auto simp: followsRow_def)
  qed
qed

lemma executeRun_followsRow:
  "followsRow en g w name args
     (executeRun, Some ''workflow_name'', False, True, False, False, False, True)"
proof (cases "args = []")
  case True
  then show ?thesis by (simp add: followsRow_def executeRun_def)
next
  case False
  obtain w1 fl md e where
    b: "buildFlagsAndMountDirs en g w (projectDir g) True False False False True = (w1, fl, md, e)"
    by (rule prod_cases4)
  show ?thesis
  proof (cases e)
    case (Some x)
    with b False show ?thesis by (simp add: followsRow_def executeRun_def)
  next
    case None
    let ?a1 = "if verbose g then args @ [''--verbose''] else args"
    let ?a2 = "if generateTasks g then ?a1 @ [''--generate-tasks''] else ?a1"
    let ?a3 = "if noGenerateTasks g then ?a2 @ [''--no-generate-tasks''] else ?a2"
    from b None False have "executeRun en g w name args =
        (g, fst (executeCmd en g w1 name ?a3 (setEnv g fl) md),
         Returned (snd (executeCmd en g w1 name ?a3 (setEnv g fl) md)))"
      by (simp add: executeRun_def Let_def split: prod.splits)
    with b None False show ?thesis
      by (auto simp: followsRow_def)
  qed
qed

lemma executeInit_core:
  assumes "executeInit en g w name args =
     (case buildFlagsAndMountDirs en g1 w (projectDir g1) False True True True False of
        (w1, flags, mountDirs, Some e) \<Rightarrow> (g1, w1, Returned (Some e))
      | (w1, flags, mountDirs, None) \<Rightarrow>
          (case mountDirs of
             [] \<Rightarrow> (g1, w1, Panicked IndexOutOfRange)
           | p # _ \<Rightarrow>
               (case executeCmd en g1 w1 name [p] flags mountDirs of
                  (w2, r) \<Rightarrow> (g1, w2, Returned r))))"
  shows "case buildFlagsAndMountDirs en g1 w (projectDir g1) False True True True False of
           (w1, fl, md, Some e) \<Rightarrow> executeInit en g w name args = (g1, w1, Returned (Some e))
         | (w1, fl, md, None) \<Rightarrow>
             (\<exists>a f. executeInit en g w name args =
                (g1, fst (executeCmd en g1 w1 name a f md),
                 Returned (snd (executeCmd en g1 w1 name a f md))))"
proof -
  obtain w1 fl md e where
    b: "buildFlagsAndMountDirs en g1 w (projectDir g1) False True True True False = (w1, fl, md, e)"
    by (rule prod_cases4)
  show ?thesis
  proof (cases e)
    case (Some x)
    with b assms show ?thesis by simp
  next
    case None
    from buildFlagsAndMountDirs_ok_mounts [OF b [unfolded None]] obtain p rest where
      p: "md = p # rest" by blast
    from b None p assms have "executeInit en g w name args =
        (g1, fst (executeCmd en g1 w1 name [p] fl md),
         Returned (snd (executeCmd en g1 w1 name [p] fl md)))"
      by (simp split: prod.splits)
    then have "\<exists>a f. executeInit en g w name args =
        (g1, fst (executeCmd en g1 w1 name a f md), Returned (snd (executeCmd en g1 w1 name a f md)))"
      by blast
    with b None show ?thesis by simp
  qed
qed

lemma executeInit_followsRow:
  "followsRow en g w name args (executeInit, None, True, False, True, True, True, False)"
proof (cases args)
  case Nil
  have "executeInit en g w name args =
     (case buildFlagsAndMountDirs en g w (projectDir g) False True True True False of
        (w1, flags, mountDirs, Some e) \<Rightarrow> (g, w1, Returned (Some e))
      | (w1, flags, mountDirs, None) \<Rightarrow>
          (case mountDirs of
             [] \<Rightarrow> (g, w1, Panicked IndexOutOfRange)
           | p # _ \<Rightarrow>
               (case executeCmd en g w1 name [p] flags mountDirs of
                  (w2, r) \<Rightarrow> (g, w2, Returned r))))"
    by (simp add: executeInit_def Nil Let_def split: prod.splits option.splits list.splits)
  from executeInit_core [OF this] Nil show ?thesis
    by (simp add: followsRow_def cong: prod.case_cong option.case_cong)
next
  case (Cons x xs)
  let ?g = "g\<lparr>projectDir := x\<rparr>"
  have "executeInit en g w name args =
     (case buildFlagsAndMountDirs en ?g w (projectDir ?g) False True True True False of
        (w1, flags, mountDirs, Some e) \<Rightarrow> (?g, w1, Returned (Some e))
      | (w1, flags, mountDirs, None) \<Rightarrow>
          (case mountDirs of
             [] \<Rightarrow> (?g, w1, Panicked IndexOutOfRange)
           | p # _ \<Rightarrow>
               (case executeCmd en ?g w1 name [p] flags mountDirs of
                  (w2, r) \<Rightarrow> (?g, w2, Returned r))))"
    by (simp add: executeInit_def Cons Let_def split: prod.splits option.splits list.splits)
  from executeInit_core [OF this] Cons show ?thesis
    by (simp add: followsRow_def cong: prod.case_cong option.case_cong)
qed

lemma executeValidate_core:
  assumes "executeValidate en g w name args =
     (case buildFlagsAndMountDirs en g1 w (projectDir g1) False False False False False of
        (w1, flags, mountDirs, Some e) \<Rightarrow> (g1, w1, Returned (Some e))
      | (w1, flags, mountDirs, None) \<Rightarrow>
          (case mountDirs of
             [] \<Rightarrow> (g1, w1, Panicked IndexOutOfRange)
           | p # _ \<Rightarrow>
               (case executeCmd en g1 w1 name
                       (if verbose g1 then [p] @ [''--verbose''] else [p])
                       (if connection g1 \<noteq> [] then (setEnv g1 flags)(''connection'' \<mapsto> connection g1)
                        else setEnv g1 flags) mountDirs of
                  (w2, r) \<Rightarrow> (g1, w2, Returned r))))"
  shows "case buildFlagsAndMountDirs en g1 w (projectDir g1) False False False False False of
           (w1, fl, md, Some e) \<Rightarrow> executeValidate en g w name args = (g1, w1, Returned (Some e))
         | (w1, fl, md, None) \<Rightarrow>
             (\<exists>a f. executeValidate en g w name args =
                (g1, fst (executeCmd en g1 w1 name a f md),
                 Returned (snd (executeCmd en g1 w1 name a f md))))"
proof -
  obtain w1 fl md e where
    b: "buildFlagsAndMountDirs en g1 w (projectDir g1) False False False False False = (w1, fl, md, e)"
    by (rule prod_cases4)
  show ?thesis
  proof (cases e)
    case (Some x)
    with b assms show ?thesis by simp
  next
    case None
    from buildFlagsAndMountDirs_ok_mounts [OF b [unfolded None]] obtain p rest where
      p: "md = p # rest" by blast
    let ?fl = "if connection g1 \<noteq> [] then (setEnv g1 fl)(''connection'' \<mapsto> connection g1)
               else setEnv g1 fl"
    let ?args = "if verbose g1 then [p] @ [''--verbose''] else [p]"
    from b None p assms have "executeValidate en g w name args =
        (g1, fst (executeCmd en g1 w1 name ?args ?fl md),
         Returned (snd (executeCmd en g1 w1 name ?args ?fl md)))"
      by (simp split: prod.splits)
    then have "\<exists>a f. executeValidate en g w name args =
        (g1, fst (executeCmd en g1 w1 name a f md), Returned (snd (executeCmd en g1 w1 name a f md)))"
      by blast
    with b None show ?thesis by simp
  qed
qed

lemma executeValidate_followsRow:
  "followsRow en g w name args (executeValidate, None, True, False, False, False, False, False)"
proof (cases args)
  case Nil
  have "executeValidate en g w name args =
     (case buildFlagsAndMountDirs en g w (projectDir g) False False False False False of
        (w1, flags, mountDirs, Some e) \<Rightarrow> (g, w1, Returned (Some e))
      | (w1, flags, mountDirs, None) \<Rightarrow>
          (case mountDirs of
             [] \<Rightarrow> (g, w1, Panicked IndexOutOfRange)
           | p # _ \<Rightarrow>
               (case executeCmd en g w1 name
                       (if verbose g then [p] @ [''--verbose''] else [p])
                       (if connection g \<noteq> [] then (setEnv g flags)(''connection'' \<mapsto> connection g)
                        else setEnv g flags) mountDirs of
                  (w2, r) \<Rightarrow> (g, w2, Returned r))))"
    by (simp add: executeValidate_def Nil Let_def split: prod.splits option.splits list.splits)
  from executeValidate_core [OF this] Nil show ?thesis
    by (simp add: followsRow_def cong: prod.case_cong option.case_cong)
next
  case (Cons x xs)
  let ?g = "g\<lparr>projectDir := x\<rparr>"
  have "executeValidate en g w name args =
     (case buildFlagsAndMountDirs en ?g w (projectDir ?g) False False False False False of
        (w1, flags, mountDirs, Some e) \<Rightarrow> (?g, w1, Returned (Some e))
      | (w1, flags, mountDirs, None) \<Rightarrow>
          (case mountDirs of
             [] \<Rightarrow> (?g, w1, Panicked IndexOutOfRange)
           | p # _ \<Rightarrow>
               (case executeCmd en ?g w1 name
                       (if verbose ?g then [p] @ [''--verbose''] else [p])
                       (if connection ?g \<noteq> [] then (setEnv ?g flags)(''connection'' \<mapsto> connection ?g)
                        else setEnv ?g flags) mountDirs of
                  (w2, r) \<Rightarrow> (?g, w2, Returned r))))"
    by (simp add: executeValidate_def Cons Let_def split: prod.splits option.splits list.splits)
  from executeValidate_core [OF this] Cons show ?thesis
    by (simp add: followsRow_def cong: prod.case_cong option.case_cong)
qed

lemma handlerTable_followed:
  assumes "row \<in> set handlerTable"
  shows "followsRow en g w name args row"
proof -
  from assms consider
      "row = (executeBase, None, False, False, False, False, False, False)"
    | "row = (executeInit, None, True, False, True, True, True, False)"
    | "row = (executeConfig, Some ''key'', False, True, False, False, False, False)"
    | "row = (executeValidate, None, True, False, False, False, False, False)"
    | "row = (executeGenerate, Some ''workflow_name'', False, True, False, False, False, True)"
    | "row = (executeRun, Some ''workflow_name'', False, True, False, False, False, True)"
    by (auto simp: handlerTable_def)
  then show ?thesis
  proof cases
    case 1
    then show ?thesis by (simp only: executeBase_followsRow)
  next
    case 2
    then show ?thesis by (simp only: executeInit_followsRow)
  next
    case 3
    then show ?thesis by (simp only: executeConfig_followsRow)
  next
    case 4
    then show ?thesis by (simp only: executeValidate_followsRow)
  next
    case 5
    then show ?thesis by (simp only: executeGenerate_followsRow)
  next
    case 6
    then show ?thesis by (simp only: executeRun_followsRow)
  qed
qed

text \<open>
  Claim C9. When the container execution fails to run or exits with a code other than zero,
  \<open>executeHelp\<close> panics with the error, where \<open>executeCmd\<close> returns the same error to its
  caller. None of the six handlers ever panics: each returns, and it returns nil only when
  its dispatch ran without error and with exit code zero. Each handler follows its row of the
  table: once its argument is there and its composition has succeeded it calls \<open>executeCmd\<close>
  and returns the very result of \<open>executeCmd\<close>, so the failures of the container come back
  from every handler as the errors \<open>executeCmd\<close> makes of them.
\<close>

theorem help_panics_handlers_return:
  "(case ExecuteCmdInDocker en (dockerLog w)
           \<lparr>call_cmd = cmdString, call_args = [], call_flags = Map.empty, call_mountDirs = [],
            call_returnOutput = False\<rparr> of
      (exitCode, output, Some e) \<Rightarrow>
        snd (executeHelp en w cmdString) = Panicked (PanicError (ErrRunning cmdString e))
    | (exitCode, output, None) \<Rightarrow>
        snd (executeHelp en w cmdString) =
          (if exitCode \<noteq> 0 then Panicked (PanicError (DockerNonZeroExitCodeError exitCode))
           else Returned ())) \<and>
   (\<forall>gc wc nm as fs ms.
      case ExecuteCmdInDocker en (dockerLog wc)
             \<lparr>call_cmd = (if debug gc then [''--debug'', nm] else [nm]), call_args = as,
              call_flags = fs, call_mountDirs = ms, call_returnOutput = False\<rparr> of
        (exitCode, output, Some e) \<Rightarrow>
          snd (executeCmd en gc wc nm as fs ms) =
            Some (ErrRunning (if debug gc then [''--debug'', nm] else [nm]) e)
      | (exitCode, output, None) \<Rightarrow>
          snd (executeCmd en gc wc nm as fs ms) =
            (if exitCode \<noteq> 0 then Some (DockerNonZeroExitCodeError exitCode) else None)) \<and>
   (\<forall>h \<in> set handlers.
      \<exists>r. snd (snd (h en g w name args)) = Returned r \<and>
          (r = None \<longrightarrow> lastRunSucceeded (fst (snd (h en g w name args))))) \<and>
   map fst handlerTable = handlers \<and>
   (\<forall>row \<in> set handlerTable. followsRow en g w name args row)"
proof (intro conjI ballI allI)
  show "case ExecuteCmdInDocker en (dockerLog w)
           \<lparr>call_cmd = cmdString, call_args = [], call_flags = Map.empty, call_mountDirs = [],
            call_returnOutput = False\<rparr> of
      (exitCode, output, Some e) \<Rightarrow>
        snd (executeHelp en w cmdString) = Panicked (PanicError (ErrRunning cmdString e))
    | (exitCode, output, None) \<Rightarrow>
        snd (executeHelp en w cmdString) =
          (if exitCode \<noteq> 0 then Panicked (PanicError (DockerNonZeroExitCodeError exitCode))
           else Returned ())"
    by (simp add: executeHelp_def Let_def split: prod.splits option.splits)
next
  fix gc wc nm as fs ms
  show "case ExecuteCmdInDocker en (dockerLog wc)
             \<lparr>call_cmd = (if debug gc then [''--debug'', nm] else [nm]), call_args = as,
              call_flags = fs, call_mountDirs = ms, call_returnOutput = False\<rparr> of
        (exitCode, output, Some e) \<Rightarrow>
          snd (executeCmd en gc wc nm as fs ms) =
            Some (ErrRunning (if debug gc then [''--debug'', nm] else [nm]) e)
      | (exitCode, output, None) \<Rightarrow>
          snd (executeCmd en gc wc nm as fs ms) =
            (if exitCode \<noteq> 0 then Some (DockerNonZeroExitCodeError exitCode) else None)"
    by (simp add: executeCmd_def Let_def split: prod.splits option.splits)
next
  fix h
  assume "h \<in> set handlers"
  then show "\<exists>r. snd (snd (h en g w name args)) = Returned r \<and>
          (r = None \<longrightarrow> lastRunSucceeded (fst (snd (h en g w name args))))"
    by (rule handlers_return)
next
  show "map fst handlerTable = handlers"
    by (simp add: handlerTable_def handlers_def)
next
  fix row
  assume "row \<in> set handlerTable"
  then show "followsRow en g w name args row"
    by (rule handlerTable_followed)
qed

theorem help_panics_handlers_return_witness:
  "snd (executeHelp (testEnv mockExecuteCmdInDockerReturnErr) emptyWorld []) =
     Panicked (PanicError (ErrRunning [] (External ''mock error''))) \<and>
   snd (executeHelp (testEnv mockExecuteCmdInDockerReturnNonZeroExitCode) emptyWorld []) =
     Panicked (PanicError (DockerNonZeroExitCodeError 1)) \<and>
   snd (snd (executeBase (testEnv mockExecuteCmdInDockerReturnErr) (defaultGlobals ''.'')
          emptyWorld ''version'' [])) =
     Returned (Some (ErrRunning [''version''] (External ''mock error''))) \<and>
   snd (snd (executeBase (testEnv mockExecuteCmdInDockerReturnNonZeroExitCode)
          (defaultGlobals ''.'') emptyWorld ''version'' [])) =
     Returned (Some (DockerNonZeroExitCodeError 1)) \<and>
   snd (snd (executeRun (testEnv (dockerKeyAnswer ''wf'' (1, [], None)))
          (defaultGlobals ''/tmp/proj'') emptyWorld ''run'' [''wf''])) =
     Returned (Some (DockerNonZeroExitCodeError 1)) \<and>
   length (dockerLog (fst (snd (executeRun (testEnv (dockerKeyAnswer ''wf'' (1, [], None)))
          (defaultGlobals ''/tmp/proj'') emptyWorld ''run'' [''wf''])))) = 4 \<and>
   executeBase \<in> set handlers \<and>
   (executeRun, Some ''workflow_name'', False, True, False, False, False, True) \<in> set handlerTable"
  using help_panics_handlers_return [of "testEnv mockExecuteCmdInDockerReturnErr" emptyWorld "[]"
      "defaultGlobals ''.''" "''version''" "[]"]
    help_panics_handlers_return [of "testEnv mockExecuteCmdInDockerReturnNonZeroExitCode"
      emptyWorld "[]" "defaultGlobals ''.''" "''version''" "[]"]
  by (simp add: run_defs executeBase_def executeRun_def executeHelp_def handlers_def
      handlerTable_def)

text \<open>
  Claim C10. Whenever \<open>executeInit\<close> succeeds (and whenever it reaches the container at all),
  it has made one container execution, whose only positional argument is the resolved
  project directory, the first element of the mount list it passes, whatever argument the
  user gave. \<open>executeValidate\<close> does the same, with \<open>--verbose\<close> after the directory when
  the verbose flag is set.
\<close>

theorem init_validate_dispatch_project_dir:
  assumes "executeInit en g w name args = (gi, wi, oi)"
    and "executeValidate en g w name args = (gv, wv, ov)"
  shows "(oi = Returned None \<or> dockerLog wi \<noteq> dockerLog w \<longrightarrow>
           (\<exists>p c res.
              getAbsolutePath en (if args = [] then projectDir g else hd args) = Inr p \<and>
              dockerLog wi = dockerLog w @ [(c, res)] \<and> call_args c = [p] \<and>
              call_mountDirs c \<noteq> [] \<and> hd (call_mountDirs c) = p \<and>
              call_cmd c = (if debug g then [''--debug'', name] else [name]))) \<and>
         (ov = Returned None \<or> dockerLog wv \<noteq> dockerLog w \<longrightarrow>
           (\<exists>p c res.
              getAbsolutePath en (if args = [] then projectDir g else hd args) = Inr p \<and>
              dockerLog wv = dockerLog w @ [(c, res)] \<and>
              call_args c = (if verbose g then [p, ''--verbose''] else [p]) \<and>
              call_mountDirs c \<noteq> [] \<and> hd (call_mountDirs c) = p \<and>
              call_cmd c = (if debug g then [''--debug'', name] else [name])))"
proof (intro conjI impI)
  assume h: "oi = Returned None \<or> dockerLog wi \<noteq> dockerLog w"
  from executeInit_cases [OF assms(1)] h obtain p fl md res where
    "getAbsolutePath en (if args = [] then projectDir g else hd args) = Inr p"
    "md \<noteq> []" "hd md = p"
    "dockerLog wi = dockerLog w @
       [(\<lparr>call_cmd = (if debug g then [''--debug'', name] else [name]), call_args = [p],
          call_flags = fl, call_mountDirs = md, call_returnOutput = False\<rparr>, res)]"
    by auto
  then show "\<exists>p c res.
      getAbsolutePath en (if args = [] then projectDir g else hd args) = Inr p \<and>
      dockerLog wi = dockerLog w @ [(c, res)] \<and> call_args c = [p] \<and>
      call_mountDirs c \<noteq> [] \<and> hd (call_mountDirs c) = p \<and>
      call_cmd c = (if debug g then [''--debug'', name] else [name])"
    by (intro exI [of _ p] exI [of _ "\<lparr>call_cmd = (if debug g then [''--debug'', name] else [name]),
          call_args = [p], call_flags = fl, call_mountDirs = md, call_returnOutput = False\<rparr>"]
        exI [of _ res]) simp
next
  assume h: "ov = Returned None \<or> dockerLog wv \<noteq> dockerLog w"
  from executeValidate_cases [OF assms(2)] h obtain p fl md res where
    "getAbsolutePath en (if args = [] then projectDir g else hd args) = Inr p"
    "md \<noteq> []" "hd md = p"
    "dockerLog wv = dockerLog w @
       [(\<lparr>call_cmd = (if debug g then [''--debug'', name] else [name]),
          call_args = (if verbose g then [p, ''--verbose''] else [p]),
          call_flags = fl, call_mountDirs = md, call_returnOutput = False\<rparr>, res)]"
    by auto
  then show "\<exists>p c res.
      getAbsolutePath en (if args = [] then projectDir g else hd args) = Inr p \<and>
      dockerLog wv = dockerLog w @ [(c, res)] \<and>
      call_args c = (if verbose g then [p, ''--verbose''] else [p]) \<and>
      call_mountDirs c \<noteq> [] \<and> hd (call_mountDirs c) = p \<and>
      call_cmd c = (if debug g then [''--debug'', name] else [name])"
    by (intro exI [of _ p] exI [of _ "\<lparr>call_cmd = (if debug g then [''--debug'', name] else [name]),
          call_args = (if verbose g then [p, ''--verbose''] else [p]), call_flags = fl,
          call_mountDirs = md, call_returnOutput = False\<rparr>"]
        exI [of _ res]) simp
qed


theorem init_validate_dispatch_project_dir_witness:
  "(case executeInit (testEnv dockerKeyDirs) ((defaultGlobals ''.'')\<lparr>verbose := True\<rparr>)
           emptyWorld ''init'' [''proj''] of
      (gi, wi, oi) \<Rightarrow>
        oi = Returned None \<and>
        map (\<lambda>x. call_args (fst x)) (dockerLog wi) = [[''/home/user/proj'']]) \<and>
   (case executeValidate (testEnv dockerKeyDirs) ((defaultGlobals ''.'')\<lparr>verbose := True\<rparr>)
           emptyWorld ''init'' [''proj''] of
      (gv, wv, ov) \<Rightarrow>
        ov = Returned None \<and>
        map (\<lambda>x. call_args (fst x)) (dockerLog wv) = [[''/home/user/proj'', ''--verbose'']])"
proof -
  let ?E = "testEnv dockerKeyDirs"
  let ?G = "(defaultGlobals ''.'')\<lparr>verbose := True\<rparr>"
  obtain gi wi oi where i: "executeInit ?E ?G emptyWorld ''init'' [''proj''] = (gi, wi, oi)"
    by (rule prod_cases3)
  obtain gv wv ov where v: "executeValidate ?E ?G emptyWorld ''init'' [''proj''] = (gv, wv, ov)"
    by (rule prod_cases3)
  from i have oi: "oi = Returned None"
    by (auto simp: executeInit_def run_defs)
  from v have ov: "ov = Returned None"
    by (auto simp: executeValidate_def run_defs)
  have a: "getAbsolutePath ?E ''proj'' = Inr ''/home/user/proj''"
    by (simp add: getAbsolutePath_def IsAbs_def testEnv_def)
  from init_validate_dispatch_project_dir [OF i v] oi ov a
  have "map (\<lambda>x. call_args (fst x)) (dockerLog wi) = [[''/home/user/proj'']]"
    and "map (\<lambda>x. call_args (fst x)) (dockerLog wv) = [[''/home/user/proj'', ''--verbose'']]"
    by (auto simp: emptyWorld_def defaultGlobals_def)
  with i v oi ov show ?thesis by simp
qed

end
